theory Spec2Isabelle
  imports Complex_Main "HOL-Library.Stream" "HOL-Library.AList"
begin

section \<open>Python values\<close>

text \<open>
  Python's unbounded \<open>int\<close> is \<open>int\<close>. Python's \<open>float\<close> is modelled by the exact
  real number it denotes (\<open>real\<close>): \<open>1.5\<close> is \<open>3/2\<close>, \<open>0.8\<close> is \<open>4/5\<close>, \<open>a / b\<close> on integers is
  the exact quotient. Rounding of IEEE doubles is not modelled there; for the integer ranges
  of the game (far below \<open>2^50\<close>) the truncations and the comparisons of a quotient with a
  literal agree with it. Where a sum of floats is compared, in \<open>TacticalBehavior\<close>, the
  doubles themselves are modelled. A string is a \<open>char list\<close>.
\<close>

datatype error = ZeroDivisionError | TypeError | KeyError

text \<open>\<open>int(x)\<close> on a float truncates toward zero.\<close>

definition py_int :: "real \<Rightarrow> int" where
  "py_int x = (if 0 \<le> x then \<lfloor>x\<rfloor> else \<lceil>x\<rceil>)"

text \<open>\<open>needle in haystack\<close> on strings: substring test.\<close>

fun starts_with :: "string \<Rightarrow> string \<Rightarrow> bool" where
  "starts_with [] s = True"
| "starts_with (p # ps) [] = False"
| "starts_with (p # ps) (c # cs) = (p = c \<and> starts_with ps cs)"

fun str_contains :: "string \<Rightarrow> string \<Rightarrow> bool" where
  "str_contains needle [] = (needle = [])"
| "str_contains needle (c # cs) = (starts_with needle (c # cs) \<or> str_contains needle cs)"

text \<open>\<open>str(n)\<close> for an integer, as an f-string renders it.\<close>

definition digit_char :: "nat \<Rightarrow> char" where
  "digit_char n = ''0123456789'' ! n"

function str_nat :: "nat \<Rightarrow> string" where
  "str_nat n = (if n < 10 then [digit_char n] else str_nat (n div 10) @ [digit_char (n mod 10)])"
  by pat_completeness auto
termination
  by (relation "measure id") auto

declare str_nat.simps [simp del]

definition str_int :: "int \<Rightarrow> string" where
  "str_int i = (if i < 0 then CHR ''-'' # str_nat (nat (- i)) else str_nat (nat i))"

text \<open>\<open>str.lower()\<close> on ASCII letters.\<close>

definition lower_char :: "char \<Rightarrow> char" where
  "lower_char c =
     (case map_of (zip ''ABCDEFGHIJKLMNOPQRSTUVWXYZ'' ''abcdefghijklmnopqrstuvwxyz'') c of
        Some l \<Rightarrow> l
      | None \<Rightarrow> c)"

definition lower :: "string \<Rightarrow> string" where
  "lower s = map lower_char s"

subsection \<open>The random source\<close>

text \<open>
  The module \<open>random\<close> is a process-wide source. Its future results are made explicit:
  the values the coming calls of \<open>random.random()\<close> return, and the positions the coming
  calls of \<open>random.choice\<close> pick (reduced modulo the length of the sequence, so that every
  element can be picked and no other). Each call consumes one entry. \<open>random.choice\<close>
  raises on an empty sequence; every call below is made on a sequence that the code has
  checked to be non-empty.
\<close>

record rng =
  uniforms :: "real stream"
  choices :: "nat stream"

definition random_random :: "rng \<Rightarrow> real \<times> rng" where
  "random_random g = (shd (uniforms g), g\<lparr>uniforms := stl (uniforms g)\<rparr>)"

definition random_choice :: "'a list \<Rightarrow> rng \<Rightarrow> 'a \<times> rng" where
  "random_choice xs g = (xs ! (shd (choices g) mod length xs), g\<lparr>choices := stl (choices g)\<rparr>)"

section \<open>core/enums.py\<close>

datatype DiceType = CHARACTER | COMBAT | ENCOUNTER | SPECIAL | FATE

datatype FaceCategory = TRAIT | COMBAT | EFFECT | UTILITY | META

datatype ImbalanceEffect = NONE | UNSTABLE | OVERLOADED | CURSED | BLESSED | CHAOTIC | SYNCHRONIZED

datatype Rarity = COMMON | UNCOMMON | RARE | EPIC | LEGENDARY

datatype EnemyType = GOBLIN | SKELETON | ORC | ZOMBIE | GHOST | SLIME | MINOTAUR | DRAGON

text \<open>\<open>member.name\<close> of an enum member.\<close>

fun FaceCategory_name :: "FaceCategory \<Rightarrow> string" where
  "FaceCategory_name FaceCategory.TRAIT = ''TRAIT''"
| "FaceCategory_name FaceCategory.COMBAT = ''COMBAT''"
| "FaceCategory_name FaceCategory.EFFECT = ''EFFECT''"
| "FaceCategory_name FaceCategory.UTILITY = ''UTILITY''"
| "FaceCategory_name FaceCategory.META = ''META''"

text \<open>\<open>str(member)\<close>, which an f-string uses for a plain \<open>Enum\<close>.\<close>

fun DiceType_str :: "DiceType \<Rightarrow> string" where
  "DiceType_str DiceType.CHARACTER = ''DiceType.CHARACTER''"
| "DiceType_str DiceType.COMBAT = ''DiceType.COMBAT''"
| "DiceType_str DiceType.ENCOUNTER = ''DiceType.ENCOUNTER''"
| "DiceType_str DiceType.SPECIAL = ''DiceType.SPECIAL''"
| "DiceType_str DiceType.FATE = ''DiceType.FATE''"

section \<open>core/dice.py\<close>

text \<open>
  The field \<open>effect_function\<close> of \<open>DiceFace\<close> (an optional callable that no code calls) is
  left out. Fields are prefixed where two classes share a field name.
\<close>

record DiceFace =
  face_name :: string
  face_value :: int
  face_category :: FaceCategory
  effect_description :: string
  face_rarity :: Rarity
  cost :: "(string \<times> int) list"
  synergies :: "string list"

record Dice =
  dice_name :: string
  dice_type :: DiceType
  dice_size :: int
  dice_rarity :: Rarity
  description :: string
  faces :: "DiceFace list"
  level :: int
  xp :: int
  xp_to_next_level :: int
  cooldown :: int
  balance_value :: int
  imbalance_effect :: ImbalanceEffect
  imbalance_severity :: real
  modifiers :: "(string \<times> real) list"

text \<open>
  \<open>Dice._calculate_balance\<close>. The division raises \<open>ZeroDivisionError\<close> when \<open>size * 2\<close>
  is zero; an exception is the value \<open>Inl\<close>, and the object it leaves behind is not
  observed.
\<close>

definition calculate_balance :: "Dice \<Rightarrow> error + Dice" where
  "calculate_balance d =
     (let d1 = d\<lparr>balance_value := sum_list (map face_value (faces d))\<rparr>
      in if balance_value d1 = 0 then
           Inr (d1\<lparr>imbalance_effect := NONE, imbalance_severity := 0\<rparr>)
         else if balance_value d1 < 0 then
           (if dice_size d1 * 2 = 0 then Inl ZeroDivisionError
            else Inr (d1\<lparr>imbalance_effect := UNSTABLE,
                           imbalance_severity :=
                             min 1 (of_int \<bar>balance_value d1\<bar> / of_int (dice_size d1 * 2))\<rparr>))
         else
           (if dice_size d1 * 2 = 0 then Inl ZeroDivisionError
            else Inr (d1\<lparr>imbalance_effect := OVERLOADED,
                           imbalance_severity :=
                             min 1 (of_int (balance_value d1) / of_int (dice_size d1 * 2))\<rparr>)))"

text \<open>
  \<open>__post_init__\<close>, which the generated constructor runs on the fields it was given: the
  balance is computed only when there are faces. \<open>Dice.from_dict\<close> calls the constructor
  with the stored balance fields and without faces, then adds the stored faces one by one.
\<close>

definition Dice_post_init :: "Dice \<Rightarrow> error + Dice" where
  "Dice_post_init d = (if faces d \<noteq> [] then calculate_balance d else Inr d)"

text \<open>
  The constructor called with a name, a type, a size and faces, the progression, cooldown
  and balance fields at their defaults.
\<close>

definition Dice_init :: "string \<Rightarrow> DiceType \<Rightarrow> int \<Rightarrow> DiceFace list \<Rightarrow> error + Dice" where
  "Dice_init nm ty sz fs =
     Dice_post_init
       \<lparr>dice_name = nm, dice_type = ty, dice_size = sz, dice_rarity = COMMON,
        description = [], faces = fs, level = 1, xp = 0, xp_to_next_level = 100,
        cooldown = 0, balance_value = 0, imbalance_effect = NONE,
        imbalance_severity = 0, modifiers = []\<rparr>"

definition add_face :: "Dice \<Rightarrow> DiceFace \<Rightarrow> error + (Dice \<times> bool)" where
  "add_face d face =
     (if int (length (faces d)) \<ge> dice_size d then Inr (d, False)
      else case calculate_balance (d\<lparr>faces := faces d @ [face]\<rparr>) of
             Inl e \<Rightarrow> Inl e
           | Inr d' \<Rightarrow> Inr (d', True))"

definition remove_face :: "Dice \<Rightarrow> int \<Rightarrow> error + (Dice \<times> DiceFace option)" where
  "remove_face d index =
     (if 0 \<le> index \<and> index < int (length (faces d)) then
        (let face = faces d ! nat index
         in case calculate_balance
                   (d\<lparr>faces := take (nat index) (faces d) @ drop (Suc (nat index)) (faces d)\<rparr>) of
              Inl e \<Rightarrow> Inl e
            | Inr d' \<Rightarrow> Inr (d', Some face))
      else Inr (d, None))"

definition replace_face :: "Dice \<Rightarrow> int \<Rightarrow> DiceFace \<Rightarrow> error + (Dice \<times> DiceFace option)" where
  "replace_face d index new_face =
     (if 0 \<le> index \<and> index < int (length (faces d)) then
        (let old_face = faces d ! nat index
         in case calculate_balance (d\<lparr>faces := (faces d)[nat index := new_face]\<rparr>) of
              Inl e \<Rightarrow> Inl e
            | Inr d' \<Rightarrow> Inr (d', Some old_face))
      else Inr (d, None))"

text \<open>\<open>Dice.level_up\<close> and \<open>Dice.add_xp\<close>: one test, no loop.\<close>

definition level_up :: "Dice \<Rightarrow> Dice" where
  "level_up d =
     (let d1 = d\<lparr>level := level d + 1\<rparr>;
          d2 = d1\<lparr>xp := xp d1 - xp_to_next_level d1\<rparr>
      in d2\<lparr>xp_to_next_level := py_int (of_int (xp_to_next_level d2) * (3 / 2))\<rparr>)"

definition add_xp :: "Dice \<Rightarrow> int \<Rightarrow> Dice \<times> bool" where
  "add_xp d amount =
     (let d1 = d\<lparr>xp := xp d + amount\<rparr>
      in if xp d1 \<ge> xp_to_next_level d1 then (level_up d1, True) else (d1, False))"

text \<open>
  \<open>Dice.roll\<close>, returning the die as the call leaves it, the triple the method returns,
  and the random source after the draws the call made.
\<close>

definition roll :: "Dice \<Rightarrow> rng \<Rightarrow> (Dice \<times> DiceFace option \<times> string \<times> string list) \<times> rng" where
  "roll d g =
     (if faces d = [] then ((d, None, ''Die has no faces!'', []), g)
      else if cooldown d > 0 then
        (let d1 = d\<lparr>cooldown := cooldown d - 1\<rparr>
         in ((d1, None,
              dice_name d1 @ '' is on cooldown for '' @ str_int (cooldown d1 + 1) @ '' more turns.'',
              []), g))
      else
        (let (double_roll, g1) =
               (if imbalance_effect d = UNSTABLE then
                  (let (u, g') = random_random g in (u < imbalance_severity d, g'))
                else (False, g))
         in if double_roll then
              (let (roll1, g2) = random_choice (faces d) g1;
                   (roll2, g3) = random_choice (faces d) g2;
                   result = (if face_value roll1 < face_value roll2 then roll1 else roll2);
                   message = ''UNSTABLE: Rolled '' @ face_name roll1 @ '' and '' @ face_name roll2
                             @ '', took worse result '' @ face_name result @ ''.''
               in ((d, Some result, message, [''Unstable: Double Roll'']), g3))
            else
              (let (result, g2) = random_choice (faces d) g1;
                   (d1, leveled) = add_xp d 10
               in ((d1, Some result, ''Normal roll.'', []), g2))))"

text \<open>A sequence of face operations on one die; the first exception ends it.\<close>

datatype face_op = AddFace DiceFace | RemoveFace int | ReplaceFace int DiceFace

fun apply_face_op :: "Dice \<Rightarrow> face_op \<Rightarrow> error + Dice" where
  "apply_face_op d (AddFace f) = map_sum id fst (add_face d f)"
| "apply_face_op d (RemoveFace i) = map_sum id fst (remove_face d i)"
| "apply_face_op d (ReplaceFace i f) = map_sum id fst (replace_face d i f)"

fun apply_face_ops :: "Dice \<Rightarrow> face_op list \<Rightarrow> error + Dice" where
  "apply_face_ops d [] = Inr d"
| "apply_face_ops d (operation # rest) =
     (case apply_face_op d operation of Inl e \<Rightarrow> Inl e | Inr d' \<Rightarrow> apply_face_ops d' rest)"





record DiceSet =
  character_dice :: "Dice list"
  combat_dice :: "Dice list"
  encounter_dice :: "Dice list"
  special_dice :: "Dice list"
  fate_dice :: "Dice list"

fun get_dice_list :: "DiceSet \<Rightarrow> DiceType \<Rightarrow> Dice list" where
  "get_dice_list ds DiceType.CHARACTER = character_dice ds"
| "get_dice_list ds DiceType.COMBAT = combat_dice ds"
| "get_dice_list ds DiceType.ENCOUNTER = encounter_dice ds"
| "get_dice_list ds DiceType.SPECIAL = special_dice ds"
| "get_dice_list ds DiceType.FATE = fate_dice ds"

text \<open>
  \<open>get_dice_list\<close> hands out the list object itself, and \<open>roll\<close> changes the die in it;
  \<open>set_dice_list\<close> writes the changed list back.
\<close>

fun set_dice_list :: "DiceSet \<Rightarrow> DiceType \<Rightarrow> Dice list \<Rightarrow> DiceSet" where
  "set_dice_list ds DiceType.CHARACTER xs = ds\<lparr>character_dice := xs\<rparr>"
| "set_dice_list ds DiceType.COMBAT xs = ds\<lparr>combat_dice := xs\<rparr>"
| "set_dice_list ds DiceType.ENCOUNTER xs = ds\<lparr>encounter_dice := xs\<rparr>"
| "set_dice_list ds DiceType.SPECIAL xs = ds\<lparr>special_dice := xs\<rparr>"
| "set_dice_list ds DiceType.FATE xs = ds\<lparr>fate_dice := xs\<rparr>"

section \<open>core/character.py\<close>

record CharacterStats =
  health :: int
  max_health :: int
  mana :: int
  max_mana :: int
  physical_damage :: int
  magic_damage :: int
  speed :: int
  dodge :: real
  crit_chance :: real
  crit_damage :: real
  resistances :: "(string \<times> real) list"
  status_effects :: "(string \<times> int) list"
  passive_bonuses :: "(string \<times> real) list"

definition increased_or_decreased :: "int \<Rightarrow> string" where
  "increased_or_decreased v = (if v > 0 then ''increased'' else ''decreased'')"

text \<open>
  The attributes of a \<open>CharacterStats\<close> object that are not numbers: \<open>hasattr\<close> holds for
  them, and adding an integer to one raises \<open>TypeError\<close>. They are the three dictionaries,
  the methods of the class, and the names Python gives every dataclass object (the list of
  CPython 3.11; \<open>__match_args__\<close> is there from 3.10 on and \<open>__getstate__\<close> from 3.11 on).
\<close>

definition non_numeric_attributes :: "string list" where
  "non_numeric_attributes =
     [''resistances'', ''status_effects'', ''passive_bonuses'', ''apply_trait'',
      ''apply_status_effect'', ''process_status_effects'', ''is_alive'', ''to_dict'',
      ''from_dict'',
      ''__annotations__'', ''__class__'', ''__dataclass_fields__'', ''__dataclass_params__'',
      ''__delattr__'', ''__dict__'', ''__dir__'', ''__doc__'', ''__eq__'', ''__format__'',
      ''__ge__'', ''__getattribute__'', ''__getstate__'', ''__gt__'', ''__hash__'',
      ''__init__'', ''__init_subclass__'', ''__le__'', ''__lt__'', ''__match_args__'',
      ''__module__'', ''__ne__'', ''__new__'', ''__reduce__'', ''__reduce_ex__'',
      ''__repr__'', ''__setattr__'', ''__sizeof__'', ''__str__'', ''__subclasshook__'',
      ''__weakref__'']"

text \<open>The last branch of \<open>apply_trait\<close>: \<open>hasattr\<close>, \<open>getattr\<close> and \<open>setattr\<close> by name.\<close>

definition apply_generic_trait :: "CharacterStats \<Rightarrow> string \<Rightarrow> int \<Rightarrow> error + (CharacterStats \<times> string)" where
  "apply_generic_trait s nm v =
     (let stat_name = lower nm;
          changed = nm @ '' '' @ increased_or_decreased v @ '' by '' @ str_int \<bar>v\<bar>
      in if stat_name = ''health'' then Inr (s\<lparr>health := health s + v\<rparr>, changed)
         else if stat_name = ''max_health'' then Inr (s\<lparr>max_health := max_health s + v\<rparr>, changed)
         else if stat_name = ''mana'' then Inr (s\<lparr>mana := mana s + v\<rparr>, changed)
         else if stat_name = ''max_mana'' then Inr (s\<lparr>max_mana := max_mana s + v\<rparr>, changed)
         else if stat_name = ''physical_damage'' then
           Inr (s\<lparr>physical_damage := physical_damage s + v\<rparr>, changed)
         else if stat_name = ''magic_damage'' then
           Inr (s\<lparr>magic_damage := magic_damage s + v\<rparr>, changed)
         else if stat_name = ''speed'' then Inr (s\<lparr>speed := speed s + v\<rparr>, changed)
         else if stat_name = ''dodge'' then Inr (s\<lparr>dodge := dodge s + of_int v\<rparr>, changed)
         else if stat_name = ''crit_chance'' then
           Inr (s\<lparr>crit_chance := crit_chance s + of_int v\<rparr>, changed)
         else if stat_name = ''crit_damage'' then
           Inr (s\<lparr>crit_damage := crit_damage s + of_int v\<rparr>, changed)
         else if stat_name \<in> set non_numeric_attributes then Inl TypeError
         else Inr (s\<lparr>passive_bonuses := AList.update nm (of_int v) (passive_bonuses s)\<rparr>,
                   ''Added '' @ nm @ '' ('' @ str_int v @ '') as a passive bonus''))"

definition apply_trait :: "CharacterStats \<Rightarrow> string \<Rightarrow> int \<Rightarrow> error + (CharacterStats \<times> string)" where
  "apply_trait s nm v =
     (if nm = ''Strength'' then
        Inr (s\<lparr>physical_damage := physical_damage s + v\<rparr>,
             ''Physical damage '' @ increased_or_decreased v @ '' by '' @ str_int \<bar>v\<bar>)
      else if nm = ''Intelligence'' then
        Inr (s\<lparr>magic_damage := magic_damage s + v\<rparr>,
             ''Magic damage '' @ increased_or_decreased v @ '' by '' @ str_int \<bar>v\<bar>)
      else if nm = ''Vitality'' then
        (let percent = v * 10;
             health_change = py_int (of_int (max_health s * percent) / 100)
         in Inr (s\<lparr>max_health := max_health s + health_change,
                    health := health s + health_change\<rparr>,
                 ''Max health '' @ increased_or_decreased v @ '' by '' @ str_int \<bar>percent\<bar> @ ''%''))
      else if nm = ''Agility'' then
        Inr (s\<lparr>speed := speed s + v, dodge := dodge s + of_int v * (2 / 100)\<rparr>,
             ''Speed '' @ increased_or_decreased v @ '' by '' @ str_int \<bar>v\<bar>)
      else if nm \<in> set [''Weakness'', ''Frailty'', ''Slowness'', ''Stupidity''] then
        (if nm = ''Weakness'' then
           Inr (s\<lparr>physical_damage := max 1 (physical_damage s + v)\<rparr>,
                ''Physical damage decreased by '' @ str_int \<bar>v\<bar>)
         else if nm = ''Frailty'' then
           (let percent = v * 10;
                health_change = py_int (of_int (max_health s * percent) / 100);
                s1 = s\<lparr>max_health := max 1 (max_health s + health_change)\<rparr>
            in Inr (s1\<lparr>health := min (health s1) (max_health s1)\<rparr>,
                    ''Max health decreased by '' @ str_int \<bar>percent\<bar> @ ''%''))
         else if nm = ''Slowness'' then
           Inr (s\<lparr>speed := max 1 (speed s + v), dodge := max 0 (dodge s + of_int v * (2 / 100))\<rparr>,
                ''Speed decreased by '' @ str_int \<bar>v\<bar>)
         else
           Inr (s\<lparr>magic_damage := max 1 (magic_damage s + v)\<rparr>,
                ''Magic damage decreased by '' @ str_int \<bar>v\<bar>))
      else apply_generic_trait s nm v)"

record Character =
  char_name :: string
  stats :: CharacterStats
  dice_set :: DiceSet
  char_level :: int
  char_xp :: int
  char_xp_to_next_level :: int
  active_faces :: "string list"
  character_class :: string

text \<open>\<open>Character.level_up\<close> (the message it returns is dropped by \<open>add_xp\<close>) and \<open>Character.add_xp\<close>.\<close>

definition Character_level_up :: "Character \<Rightarrow> Character" where
  "Character_level_up c =
     (let c1 = c\<lparr>char_level := char_level c + 1\<rparr>;
          c2 = c1\<lparr>char_xp := char_xp c1 - char_xp_to_next_level c1\<rparr>;
          c3 = c2\<lparr>char_xp_to_next_level := py_int (of_int (char_xp_to_next_level c2) * (3 / 2))\<rparr>;
          health_increase = char_level c3 * 5;
          s1 = (stats c3)\<lparr>max_health := max_health (stats c3) + health_increase\<rparr>;
          s2 = s1\<lparr>health := health s1 + health_increase\<rparr>;
          s3 = s2\<lparr>max_mana := max_mana s2 + char_level c3 * 2\<rparr>;
          s4 = s3\<lparr>mana := max_mana s3\<rparr>;
          s5 = s4\<lparr>physical_damage := physical_damage s4 + 1\<rparr>;
          s6 = s5\<lparr>magic_damage := magic_damage s5 + 1\<rparr>;
          s7 = (if char_level c3 mod 3 = 0 then s6\<lparr>speed := speed s6 + 1\<rparr> else s6)
      in c3\<lparr>stats := s7\<rparr>)"

definition Character_add_xp :: "Character \<Rightarrow> int \<Rightarrow> Character \<times> bool" where
  "Character_add_xp c amount =
     (let c1 = c\<lparr>char_xp := char_xp c + amount\<rparr>
      in if char_xp c1 \<ge> char_xp_to_next_level c1 then (Character_level_up c1, True)
         else (c1, False))"

text \<open>The dictionary \<open>roll_die\<close> returns for a face.\<close>

record RollResult =
  rr_name :: string
  rr_value :: int
  rr_category :: string
  rr_description :: string
  rr_effects :: "string list"

definition roll_die :: "Character \<Rightarrow> DiceType \<Rightarrow> int \<Rightarrow> rng
    \<Rightarrow> error + ((Character \<times> RollResult option \<times> string) \<times> rng)" where
  "roll_die c ty index g =
     (let dice_list = get_dice_list (dice_set c) ty
      in if index < 0 \<or> index \<ge> int (length dice_list) then
           Inr ((c, None, ''Invalid die selection''), g)
         else
           (let die = dice_list ! nat index;
                ((die', result, msg, effects), g') = roll die g;
                c1 = c\<lparr>dice_set := set_dice_list (dice_set c) ty (dice_list[nat index := die'])\<rparr>
            in case result of
                 None \<Rightarrow> Inr ((c1, None, msg), g')
               | Some face \<Rightarrow>
                   (case (if face_category face = FaceCategory.TRAIT
                          then apply_trait (stats c1) (face_name face) (face_value face)
                          else Inr (stats c1, [])) of
                      Inl e \<Rightarrow> Inl e
                    | Inr (stats', effect_message) \<Rightarrow>
                        (let c2 = c1\<lparr>stats := stats'\<rparr>;
                             c3 = c2\<lparr>active_faces := active_faces c2 @ [face_name face]\<rparr>;
                             c4 = (if length (active_faces c3) > 10
                                   then c3\<lparr>active_faces :=
                                             drop (length (active_faces c3) - 10) (active_faces c3)\<rparr>
                                   else c3)
                         in Inr ((c4,
                                  Some \<lparr>rr_name = face_name face, rr_value = face_value face,
                                        rr_category = FaceCategory_name (face_category face),
                                        rr_description = effect_description face,
                                        rr_effects = effects\<rparr>,
                                  msg @ '' '' @ effect_message), g')))))"

section \<open>game/dungeon.py and game/combat.py\<close>

record Enemy =
  enemy_name :: string
  enemy_type :: EnemyType
  enemy_level :: int
  enemy_health :: int
  enemy_max_health :: int
  enemy_damage :: int
  gold_reward :: int
  xp_reward :: int

record CombatResult =
  success :: bool
  message :: string
  damage_dealt :: int
  healing_done :: int
  status_applied :: "string option"
  target_defeated :: bool

text \<open>\<open>CombatSystem\<close> owns one \<open>CombatLog\<close>, whose state is its list of entries.\<close>

record CombatSystem =
  entries :: "string list"

definition add_entry :: "CombatSystem \<Rightarrow> string \<Rightarrow> CombatSystem" where
  "add_entry cs entry = cs\<lparr>entries := entries cs @ [entry]\<rparr>"

text \<open>\<open>CombatSystem.start_combat\<close>: the log is cleared and the new combat announced.\<close>

definition start_combat :: "CombatSystem \<Rightarrow> Character \<Rightarrow> Enemy list \<Rightarrow> CombatSystem" where
  "start_combat cs player enemies =
     foldl add_entry
       (add_entry (cs\<lparr>entries := []\<rparr>)
          (''Combat started against '' @ str_int (int (length enemies)) @ '' enemies!''))
       (map (\<lambda>enemy. ''- '' @ enemy_name enemy @ '' (Level '' @ str_int (enemy_level enemy)
                      @ '') with '' @ str_int (enemy_health enemy) @ '' health'')
          enemies)"

definition handle_combat_face :: "CombatSystem \<Rightarrow> Character \<Rightarrow> Enemy \<Rightarrow> string \<Rightarrow> int \<Rightarrow> rng
    \<Rightarrow> (CombatSystem \<times> Enemy \<times> CombatResult) \<times> rng" where
  "handle_combat_face cs player target fname fvalue g =
     (let base_damage = physical_damage (stats player);
          damage_multiplier = (if str_contains ''Heavy'' fname then 3 / 2
                               else if str_contains ''Quick'' fname then 4 / 5
                               else 1);
          damage0 = py_int (of_int base_damage * damage_multiplier) + fvalue;
          (u, g') = random_random g;
          is_critical = (u < crit_chance (stats player));
          damage = (if is_critical then py_int (of_int damage0 * crit_damage (stats player))
                    else damage0);
          target1 = target\<lparr>enemy_health := enemy_health target - damage\<rparr>;
          defeated = (enemy_health target1 \<le> 0);
          target2 = (if defeated then target1\<lparr>enemy_health := 0\<rparr> else target1);
          msg0 = (if is_critical
                  then ''CRITICAL HIT! '' @ fname @ '' deals '' @ str_int damage @ '' damage to ''
                       @ enemy_name target2 @ ''!''
                  else fname @ '' deals '' @ str_int damage @ '' damage to '' @ enemy_name target2
                       @ ''!'');
          msg = (if defeated then msg0 @ '' '' @ enemy_name target2 @ '' is defeated!'' else msg0)
      in ((add_entry cs msg, target2,
           \<lparr>success = True, message = msg, damage_dealt = damage, healing_done = 0,
            status_applied = None, target_defeated = defeated\<rparr>), g'))"

definition handle_healing :: "CombatSystem \<Rightarrow> Character \<Rightarrow> string \<Rightarrow> int
    \<Rightarrow> CombatSystem \<times> Character \<times> CombatResult" where
  "handle_healing cs player fname fvalue =
     (let heal_amount = (if str_contains ''Major'' fname then 30 + fvalue * 2 else 15 + fvalue);
          old_health = health (stats player);
          player1 = player\<lparr>stats := (stats player)\<lparr>health :=
                       min (health (stats player) + heal_amount) (max_health (stats player))\<rparr>\<rparr>;
          actual_heal = health (stats player1) - old_health;
          msg = fname @ '' restores '' @ str_int actual_heal @ '' health''
      in (add_entry cs msg, player1,
          \<lparr>success = True, message = msg, damage_dealt = 0, healing_done = actual_heal,
           status_applied = None, target_defeated = False\<rparr>))"

definition handle_status_effect :: "CombatSystem \<Rightarrow> Enemy \<Rightarrow> string \<Rightarrow> int \<Rightarrow> string
    \<Rightarrow> CombatSystem \<times> CombatResult" where
  "handle_status_effect cs target effect duration fname =
     (let msg = fname @ '' applies '' @ effect @ '' to '' @ enemy_name target @ '' for ''
                @ str_int duration @ '' turns''
      in (add_entry cs msg,
          \<lparr>success = True, message = msg, damage_dealt = 0, healing_done = 0,
           status_applied = Some effect, target_defeated = False\<rparr>))"

definition handle_effect_face :: "CombatSystem \<Rightarrow> Character \<Rightarrow> Enemy \<Rightarrow> string \<Rightarrow> int
    \<Rightarrow> CombatSystem \<times> Character \<times> CombatResult" where
  "handle_effect_face cs player target fname fvalue =
     (if str_contains ''Heal'' fname then handle_healing cs player fname fvalue
      else if str_contains ''Bleed'' fname then
        (let (cs', res) = handle_status_effect cs target ''Bleeding'' 3 fname in (cs', player, res))
      else if str_contains ''Poison'' fname then
        (let (cs', res) = handle_status_effect cs target ''Poisoned'' 3 fname in (cs', player, res))
      else if str_contains ''Stun'' fname then
        (let (cs', res) = handle_status_effect cs target ''Stunned'' 1 fname in (cs', player, res))
      else
        (add_entry cs (''Player used '' @ fname @ '' effect''), player,
         \<lparr>success = True, message = ''Used '' @ fname @ '' effect'', damage_dealt = 0,
          healing_done = 0, status_applied = None, target_defeated = False\<rparr>))"

definition process_player_action :: "CombatSystem \<Rightarrow> Character \<Rightarrow> Enemy \<Rightarrow> RollResult \<Rightarrow> rng
    \<Rightarrow> (CombatSystem \<times> Character \<times> Enemy \<times> CombatResult) \<times> rng" where
  "process_player_action cs player target rr g =
     (if rr_category rr = ''COMBAT'' then
        (let ((cs', target', res), g') =
               handle_combat_face cs player target (rr_name rr) (rr_value rr) g
         in ((cs', player, target', res), g'))
      else if rr_category rr = ''EFFECT'' then
        (let (cs', player', res) = handle_effect_face cs player target (rr_name rr) (rr_value rr)
         in ((cs', player', target, res), g))
      else
        ((add_entry cs (''Player used '' @ rr_name rr @ '': '' @ rr_description rr), player, target,
          \<lparr>success = True, message = ''Used '' @ rr_name rr, damage_dealt = 0, healing_done = 0,
           status_applied = None, target_defeated = False\<rparr>), g))"

text \<open>
  \<open>CombatSystem.player_turn\<close>. The result carries every object the call can change: the
  combat system (its log), the player, the list of enemies, then the \<open>CombatResult\<close>.
\<close>

definition player_turn :: "CombatSystem \<Rightarrow> Character \<Rightarrow> Enemy list \<Rightarrow> DiceType \<Rightarrow> int \<Rightarrow> int
    \<Rightarrow> rng \<Rightarrow> error + ((CombatSystem \<times> Character \<times> Enemy list \<times> CombatResult) \<times> rng)" where
  "player_turn cs player enemies ty dice_index target_index g =
     (if enemies = [] \<or> target_index < 0 \<or> target_index \<ge> int (length enemies) then
        Inr ((cs, player, enemies,
              \<lparr>success = False, message = ''Invalid target!'', damage_dealt = 0,
               healing_done = 0, status_applied = None, target_defeated = False\<rparr>), g)
      else
        (case roll_die player ty dice_index g of
           Inl e \<Rightarrow> Inl e
         | Inr ((player1, roll_result, msg), g1) \<Rightarrow>
             (case roll_result of
                None \<Rightarrow>
                  Inr ((add_entry cs (''Player rolled but got no result: '' @ msg), player1,
                        enemies,
                        \<lparr>success = False, message = msg, damage_dealt = 0, healing_done = 0,
                         status_applied = None, target_defeated = False\<rparr>), g1)
              | Some rr \<Rightarrow>
                  (let target = enemies ! nat target_index;
                       ((cs', player2, target', res), g2) =
                         process_player_action cs player1 target rr g1
                   in Inr ((cs', player2, enemies[nat target_index := target'], res), g2)))))"

section \<open>enemies/ai.py\<close>

text \<open>
  An available die is a tuple \<open>(dice_type, dice_index, dice_info)\<close>; \<open>dice_info['faces']\<close>
  is a list of dictionaries read at the keys \<open>name\<close>, \<open>category\<close> and \<open>value\<close>.
\<close>

record FaceInfo =
  info_name :: string
  info_category :: string
  info_value :: int

record DiceInfo =
  info_faces :: "FaceInfo list"

type_synonym enemy_die = "DiceType \<times> int \<times> DiceInfo"

definition Random_decide_action :: "Enemy \<Rightarrow> Character \<Rightarrow> enemy_die list \<Rightarrow> rng
    \<Rightarrow> (DiceType \<times> int) \<times> rng" where
  "Random_decide_action enemy player enemy_dice g =
     (if enemy_dice = [] then ((DiceType.COMBAT, 0), g)
      else (let (selected, g') = random_choice enemy_dice g
            in ((fst selected, fst (snd selected)), g')))"

definition attack_faces :: "DiceInfo \<Rightarrow> FaceInfo list" where
  "attack_faces info =
     filter (\<lambda>face. info_category face = ''COMBAT'' \<and> str_contains ''Attack'' (info_name face))
       (info_faces info)"

fun attack_dice_of :: "enemy_die list \<Rightarrow> (DiceType \<times> int \<times> int) list" where
  "attack_dice_of [] = []"
| "attack_dice_of ((ty, ix, info) # rest) =
     (if ty = DiceType.COMBAT \<and> attack_faces info \<noteq> [] then
        (ty, ix,
         sum_list (map info_value (filter (\<lambda>face. info_value face > 0) (attack_faces info))))
        # attack_dice_of rest
      else attack_dice_of rest)"

text \<open>
  \<open>sort(key = score, reverse = True)\<close> is stable, as \<open>sort_key\<close> on the negated score is.
\<close>

definition Aggressive_decide_action :: "Enemy \<Rightarrow> Character \<Rightarrow> enemy_die list \<Rightarrow> rng
    \<Rightarrow> (DiceType \<times> int) \<times> rng" where
  "Aggressive_decide_action enemy player enemy_dice g =
     (if enemy_dice = [] then ((DiceType.COMBAT, 0), g)
      else
        (let attack_dice = attack_dice_of enemy_dice
         in if attack_dice \<noteq> [] then
              (let best = hd (sort_key (\<lambda>d. - snd (snd d)) attack_dice)
               in ((fst best, fst (snd best)), g))
            else
              (let combat_dice = filter (\<lambda>d. fst d = DiceType.COMBAT) enemy_dice
               in if combat_dice \<noteq> [] then
                    ((fst (hd combat_dice), fst (snd (hd combat_dice))), g)
                  else
                    (let (selected, g') = random_choice enemy_dice g
                     in ((fst selected, fst (snd selected)), g')))))"

text \<open>The loop that returns the first die having a face that satisfies a test.\<close>

fun first_with_face :: "(FaceInfo \<Rightarrow> bool) \<Rightarrow> enemy_die list \<Rightarrow> (DiceType \<times> int) option" where
  "first_with_face wanted [] = None"
| "first_with_face wanted ((ty, ix, info) # rest) =
     (if filter wanted (info_faces info) \<noteq> [] then Some (ty, ix)
      else first_with_face wanted rest)"

definition Defensive_decide_action :: "Enemy \<Rightarrow> Character \<Rightarrow> enemy_die list \<Rightarrow> rng
    \<Rightarrow> error + ((DiceType \<times> int) \<times> rng)" where
  "Defensive_decide_action enemy player enemy_dice g =
     (if enemy_dice = [] then Inr ((DiceType.COMBAT, 0), g)
      else if enemy_max_health enemy = 0 then Inl ZeroDivisionError
      else
        (let health_percentage = of_int (enemy_health enemy) / of_int (enemy_max_health enemy) :: real
         in if health_percentage < 3 / 10 then
              (case first_with_face
                      (\<lambda>face. str_contains ''Heal'' (info_name face)
                           \<or> str_contains ''Defense'' (info_name face)
                           \<or> str_contains ''Block'' (info_name face)) enemy_dice of
                 Some selected \<Rightarrow> Inr (selected, g)
               | None \<Rightarrow> Inr (Aggressive_decide_action enemy player enemy_dice g))
            else if health_percentage < 6 / 10 then
              (let combat_dice = filter (\<lambda>d. fst d = DiceType.COMBAT) enemy_dice
               in if combat_dice \<noteq> [] then
                    Inr ((fst (hd combat_dice), fst (snd (hd combat_dice))), g)
                  else Inr (Aggressive_decide_action enemy player enemy_dice g))
            else Inr (Aggressive_decide_action enemy player enemy_dice g)))"

fun status_dice_of :: "enemy_die list \<Rightarrow> (DiceType \<times> int) list" where
  "status_dice_of [] = []"
| "status_dice_of ((ty, ix, info) # rest) =
     (if filter (\<lambda>face. info_category face = ''EFFECT'') (info_faces info) \<noteq> []
      then (ty, ix) # status_dice_of rest
      else status_dice_of rest)"

text \<open>
  \<open>TacticalBehavior\<close> compares a quotient of integers with a sum of floats, and the
  rounding of the sum decides the branch (\<open>0.6 + 0.3\<close> is below \<open>0.9\<close>). So here the floats
  are the doubles of IEEE 754: a double is written as a fraction, numerator and positive
  denominator, and each operation rounds its exact result to 53 significant bits, ties to
  even. Subnormal numbers and overflow are outside the model.
\<close>

type_synonym double = "int \<times> int"

function bit_length :: "nat \<Rightarrow> nat" where
  "bit_length n = (if n = 0 then 0 else Suc (bit_length (n div 2)))"
  by pat_completeness auto
termination
  by (relation "measure id") auto

declare bit_length.simps [simp del]

text \<open>The nearest integer to \<open>a / b\<close> for positive \<open>b\<close>, a tie going to the even one.\<close>

definition round_half_even :: "int \<Rightarrow> int \<Rightarrow> int" where
  "round_half_even a b =
     (let q = a div b; r = a mod b
      in if 2 * r < b then q else if 2 * r > b then q + 1 else if even q then q else q + 1)"

text \<open>The integer \<open>e\<close> with \<open>2 ^ e \<le> n / b < 2 ^ (e + 1)\<close>, for positive \<open>n\<close> and \<open>b\<close>.\<close>

definition binary_exponent :: "int \<Rightarrow> int \<Rightarrow> int" where
  "binary_exponent n b =
     (let k = int (bit_length (nat n)) - int (bit_length (nat b))
      in if (if 0 \<le> k then b * 2 ^ nat k \<le> n else b \<le> n * 2 ^ nat (- k)) then k else k - 1)"

text \<open>The double nearest to \<open>a / b\<close>, for positive \<open>b\<close>.\<close>

definition double_of_fraction :: "int \<Rightarrow> int \<Rightarrow> double" where
  "double_of_fraction a b =
     (if a = 0 then (0, 1)
      else
        (let n = \<bar>a\<bar>;
             e = binary_exponent n b - 52;
             m = (if 0 \<le> e then round_half_even n (b * 2 ^ nat e)
                  else round_half_even (n * 2 ^ nat (- e)) b)
         in if 0 \<le> e then (sgn a * m * 2 ^ nat e, 1) else (sgn a * m, 2 ^ nat (- e))))"

text \<open>\<open>a / b\<close> on integers (for \<open>b\<close> other than 0), \<open>x + y\<close>, \<open>x - y\<close> and \<open>x < y\<close> on floats.\<close>

definition int_truediv :: "int \<Rightarrow> int \<Rightarrow> double" where
  "int_truediv a b = (if 0 < b then double_of_fraction a b else double_of_fraction (- a) (- b))"

definition double_add :: "double \<Rightarrow> double \<Rightarrow> double" where
  "double_add x y = double_of_fraction (fst x * snd y + fst y * snd x) (snd x * snd y)"

definition double_sub :: "double \<Rightarrow> double \<Rightarrow> double" where
  "double_sub x y = double_of_fraction (fst x * snd y - fst y * snd x) (snd x * snd y)"

definition double_less :: "double \<Rightarrow> double \<Rightarrow> bool" where
  "double_less x y = (fst x * snd y < fst y * snd x)"

definition double_value :: "double \<Rightarrow> real" where
  "double_value x = of_int (fst x) / of_int (snd x)"

definition Tactical_decide_action :: "Enemy \<Rightarrow> Character \<Rightarrow> enemy_die list \<Rightarrow> rng
    \<Rightarrow> error + ((DiceType \<times> int) \<times> rng)" where
  "Tactical_decide_action enemy player enemy_dice g =
     (if enemy_dice = [] then Inr ((DiceType.COMBAT, 0), g)
      else if enemy_max_health enemy = 0 then Inl ZeroDivisionError
      else if max_health (stats player) = 0 then Inl ZeroDivisionError
      else
        (let enemy_health_percentage =
               int_truediv (enemy_health enemy) (enemy_max_health enemy);
             player_health_percentage =
               int_truediv (health (stats player)) (max_health (stats player))
         in if double_less (double_add player_health_percentage (double_of_fraction 3 10))
                 enemy_health_percentage then
              Inr (Aggressive_decide_action enemy player enemy_dice g)
            else if double_less enemy_health_percentage
                      (double_sub player_health_percentage (double_of_fraction 3 10)) then
              Defensive_decide_action enemy player enemy_dice g
            else
              (let status_dice = status_dice_of enemy_dice;
                   (use_status, g1) =
                     (if status_dice \<noteq> [] then
                        (let (u, g') = random_random g
                         in (u < double_value (double_of_fraction 6 10), g'))
                      else (False, g))
               in if use_status then Inr (random_choice status_dice g1)
                  else
                    (let (aggressive, g2) = Aggressive_decide_action enemy player enemy_dice g1
                     in case Defensive_decide_action enemy player enemy_dice g2 of
                          Inl e \<Rightarrow> Inl e
                        | Inr (defensive, g3) \<Rightarrow> Inr (random_choice [aggressive, defensive] g3)))))"

text \<open>The attributes of a \<open>BossBehavior\<close> object, as \<open>__init__\<close> sets them.\<close>

record BossState =
  turn_count :: int
  phase :: int
  phase_abilities_used :: "string set"

definition BossState_init :: BossState where
  "BossState_init = \<lparr>turn_count = 0, phase = 1, phase_abilities_used = {}\<rparr>"

definition ultimate_key :: "DiceType \<Rightarrow> int \<Rightarrow> string" where
  "ultimate_key ty ix =
     DiceType_str ty @ ''_'' @ str_int ix @ ''_ultimate''"

text \<open>
  The two nested loops of phase 3. The inner loop over the faces of one die tells whether
  the method returns there; the outer loop gives the die it returns.
\<close>

fun ultimate_in_faces :: "string set \<Rightarrow> string \<Rightarrow> FaceInfo list \<Rightarrow> bool" where
  "ultimate_in_faces used key [] = False"
| "ultimate_in_faces used key (face # rest) =
     (if str_contains ''Ultimate'' (info_name face) \<and> info_value face \<ge> 4 \<and> key \<notin> used
      then True
      else ultimate_in_faces used key rest)"

fun find_ultimate :: "string set \<Rightarrow> enemy_die list \<Rightarrow> (DiceType \<times> int) option" where
  "find_ultimate used [] = None"
| "find_ultimate used ((ty, ix, info) # rest) =
     (if ultimate_in_faces used (ultimate_key ty ix) (info_faces info)
      then Some (ty, ix)
      else find_ultimate used rest)"

fun first_special :: "enemy_die list \<Rightarrow> (DiceType \<times> int) option" where
  "first_special [] = None"
| "first_special ((ty, ix, info) # rest) =
     (if ty = DiceType.SPECIAL then Some (ty, ix) else first_special rest)"

text \<open>
  \<open>BossBehavior.decide_action\<close>: what the call returns or raises, the object's attributes
  after the call, and the random source.
\<close>

definition Boss_decide_action :: "BossState \<Rightarrow> Enemy \<Rightarrow> Character \<Rightarrow> enemy_die list \<Rightarrow> rng
    \<Rightarrow> (error + (DiceType \<times> int)) \<times> BossState \<times> rng" where
  "Boss_decide_action b enemy player enemy_dice g =
     (if enemy_dice = [] then (Inr (DiceType.COMBAT, 0), b, g)
      else
        (let b1 = b\<lparr>turn_count := turn_count b + 1\<rparr>
         in if enemy_max_health enemy = 0 then (Inl ZeroDivisionError, b1, g)
            else
              (let health_percentage =
                     of_int (enemy_health enemy) / of_int (enemy_max_health enemy) :: real;
                   new_phase = (if health_percentage < 3 / 10 then 3
                                else if health_percentage < 6 / 10 then 2 else 1);
                   b2 = (if new_phase \<noteq> phase b1
                         then b1\<lparr>phase := new_phase, phase_abilities_used := {}\<rparr> else b1);
                   ability =
                     (if phase b2 = 3 then
                        (case find_ultimate (phase_abilities_used b2) enemy_dice of
                           Some (ty, ix) \<Rightarrow>
                             Some ((ty, ix),
                                   b2\<lparr>phase_abilities_used :=
                                        insert (ultimate_key ty ix)
                                          (phase_abilities_used b2)\<rparr>)
                         | None \<Rightarrow> None)
                      else if phase b2 = 2 then
                        (if ''phase2_heal'' \<notin> phase_abilities_used b2 then
                           (case first_with_face (\<lambda>face. str_contains ''Heal'' (info_name face))
                                   enemy_dice of
                              Some selected \<Rightarrow>
                                Some (selected,
                                      b2\<lparr>phase_abilities_used :=
                                           insert ''phase2_heal'' (phase_abilities_used b2)\<rparr>)
                            | None \<Rightarrow> None)
                         else None)
                      else None)
               in case ability of
                    Some (selected, b3) \<Rightarrow> (Inr selected, b3, g)
                  | None \<Rightarrow>
                      (case (if turn_count b2 mod 3 = 0 then first_special enemy_dice else None) of
                         Some selected \<Rightarrow> (Inr selected, b2, g)
                       | None \<Rightarrow>
                           (case Tactical_decide_action enemy player enemy_dice g of
                              Inl e \<Rightarrow> (Inl e, b2, g)
                            | Inr (selected, g') \<Rightarrow> (Inr selected, b2, g'))))))"

text \<open>
  The behaviour objects. \<open>EnemyAI\<close> keeps references to them in a dictionary, and a
  \<open>BossBehavior\<close> object is changed by its own \<open>decide_action\<close>; so the objects live in
  a store (\<open>objects\<close>, a reference being a position in it) and \<open>behaviors\<close> maps a key to a
  reference. \<open>CustomBehavior\<close> is the class \<open>create_custom_behavior\<close> makes from a decision
  function.
\<close>

datatype AIBehavior =
    RandomBehavior
  | AggressiveBehavior
  | DefensiveBehavior
  | TacticalBehavior
  | BossBehavior BossState
  | CustomBehavior "Enemy \<Rightarrow> Character \<Rightarrow> enemy_die list \<Rightarrow> DiceType \<times> int"

record EnemyAI =
  objects :: "AIBehavior list"
  behaviors :: "(string \<times> nat) list"
  enemy_type_behaviors :: "(EnemyType \<times> string) list"
  custom_behaviors :: "(string \<times> string) list"

definition EnemyAI_init :: EnemyAI where
  "EnemyAI_init =
     \<lparr>objects = [RandomBehavior, AggressiveBehavior, DefensiveBehavior, TacticalBehavior,
                 BossBehavior BossState_init],
      behaviors = [(''random'', 0), (''aggressive'', 1), (''defensive'', 2), (''tactical'', 3),
                   (''boss'', 4)],
      enemy_type_behaviors =
        [(GOBLIN, ''aggressive''), (SKELETON, ''random''), (ORC, ''aggressive''),
         (ZOMBIE, ''defensive''), (GHOST, ''tactical''), (SLIME, ''defensive''),
         (MINOTAUR, ''aggressive''), (DRAGON, ''boss'')],
      custom_behaviors = []\<rparr>"

text \<open>\<open>self.behaviors[key]\<close>, which raises \<open>KeyError\<close> for a key that is not there.\<close>

definition lookup_behavior :: "EnemyAI \<Rightarrow> string \<Rightarrow> error + nat" where
  "lookup_behavior ai key =
     (case map_of (behaviors ai) key of None \<Rightarrow> Inl KeyError | Some reference \<Rightarrow> Inr reference)"

definition boss_name :: "string \<Rightarrow> bool" where
  "boss_name nm =
     (str_contains ''Boss'' nm \<or> str_contains ''Lord'' nm \<or> str_contains ''King'' nm
      \<or> list_ex (\<lambda>known. str_contains known nm)
           [''Grubnosh'', ''Bonecrusher'', ''Grimfang'', ''Flamescale''])"

definition get_behavior :: "EnemyAI \<Rightarrow> Enemy \<Rightarrow> error + nat" where
  "get_behavior ai enemy =
     (case map_of (custom_behaviors ai) (enemy_name enemy) of
        Some behavior_key \<Rightarrow> lookup_behavior ai behavior_key
      | None \<Rightarrow>
          if boss_name (enemy_name enemy) then lookup_behavior ai ''boss''
          else lookup_behavior ai
                 (case map_of (enemy_type_behaviors ai) (enemy_type enemy) of
                    Some behavior_key \<Rightarrow> behavior_key
                  | None \<Rightarrow> ''random''))"

text \<open>The method \<open>decide_action\<close> of the object's class, with the object as the call leaves it.\<close>

fun behavior_decide_action :: "AIBehavior \<Rightarrow> Enemy \<Rightarrow> Character \<Rightarrow> enemy_die list \<Rightarrow> rng
    \<Rightarrow> (error + (DiceType \<times> int)) \<times> AIBehavior \<times> rng" where
  "behavior_decide_action RandomBehavior enemy player enemy_dice g =
     (let (selected, g') = Random_decide_action enemy player enemy_dice g
      in (Inr selected, RandomBehavior, g'))"
| "behavior_decide_action AggressiveBehavior enemy player enemy_dice g =
     (let (selected, g') = Aggressive_decide_action enemy player enemy_dice g
      in (Inr selected, AggressiveBehavior, g'))"
| "behavior_decide_action DefensiveBehavior enemy player enemy_dice g =
     (case Defensive_decide_action enemy player enemy_dice g of
        Inl e \<Rightarrow> (Inl e, DefensiveBehavior, g)
      | Inr (selected, g') \<Rightarrow> (Inr selected, DefensiveBehavior, g'))"
| "behavior_decide_action TacticalBehavior enemy player enemy_dice g =
     (case Tactical_decide_action enemy player enemy_dice g of
        Inl e \<Rightarrow> (Inl e, TacticalBehavior, g)
      | Inr (selected, g') \<Rightarrow> (Inr selected, TacticalBehavior, g'))"
| "behavior_decide_action (BossBehavior b) enemy player enemy_dice g =
     (let (outcome, b', g') = Boss_decide_action b enemy player enemy_dice g
      in (outcome, BossBehavior b', g'))"
| "behavior_decide_action (CustomBehavior decision_function) enemy player enemy_dice g =
     (Inr (decision_function enemy player enemy_dice), CustomBehavior decision_function, g)"

definition EnemyAI_decide_action :: "EnemyAI \<Rightarrow> Enemy \<Rightarrow> Character \<Rightarrow> enemy_die list \<Rightarrow> rng
    \<Rightarrow> (error + (DiceType \<times> int)) \<times> EnemyAI \<times> rng" where
  "EnemyAI_decide_action ai enemy player enemy_dice g =
     (case get_behavior ai enemy of
        Inl e \<Rightarrow> (Inl e, ai, g)
      | Inr reference \<Rightarrow>
          (let (outcome, behavior', g') =
                 behavior_decide_action (objects ai ! reference) enemy player enemy_dice g
           in (outcome, ai\<lparr>objects := (objects ai)[reference := behavior']\<rparr>, g')))"

definition set_custom_behavior :: "EnemyAI \<Rightarrow> string \<Rightarrow> string \<Rightarrow> EnemyAI \<times> bool" where
  "set_custom_behavior ai nm behavior_key =
     (if map_of (behaviors ai) behavior_key = None then (ai, False)
      else (ai\<lparr>custom_behaviors := AList.update nm behavior_key (custom_behaviors ai)\<rparr>, True))"

text \<open>\<open>register_behavior\<close> for an object made for the call, as \<open>create_custom_behavior\<close> does.\<close>

definition register_behavior :: "EnemyAI \<Rightarrow> string \<Rightarrow> AIBehavior \<Rightarrow> EnemyAI" where
  "register_behavior ai key behavior =
     ai\<lparr>objects := objects ai @ [behavior],
        behaviors := AList.update key (length (objects ai)) (behaviors ai)\<rparr>"

definition set_enemy_type_behavior :: "EnemyAI \<Rightarrow> EnemyType \<Rightarrow> string \<Rightarrow> EnemyAI \<times> bool" where
  "set_enemy_type_behavior ai ty behavior_key =
     (if map_of (behaviors ai) behavior_key = None then (ai, False)
      else (ai\<lparr>enemy_type_behaviors :=
                  AList.update ty behavior_key (enemy_type_behaviors ai)\<rparr>, True))"

text \<open>
  An enemy is classified as a boss when the lookup of \<open>get_behavior\<close> ends at the key
  \<open>boss\<close>: by an override for its name, by the pattern of its name, or by its type.
\<close>

definition classified_as_boss :: "EnemyAI \<Rightarrow> Enemy \<Rightarrow> bool" where
  "classified_as_boss ai enemy =
     (case map_of (custom_behaviors ai) (enemy_name enemy) of
        Some behavior_key \<Rightarrow> behavior_key = ''boss''
      | None \<Rightarrow>
          boss_name (enemy_name enemy)
          \<or> map_of (enemy_type_behaviors ai) (enemy_type enemy) = Some ''boss'')"

text \<open>
  The objects that outlive a combat: the \<open>CombatSystem\<close> of the game instance, and the
  module-level \<open>enemy_ai = EnemyAI()\<close>, created once when \<open>ai.py\<close> is loaded. A combat
  begins with \<open>start_combat\<close> on the former; the latter is changed by its own methods only.
\<close>

record Game =
  combat_system :: CombatSystem
  enemy_ai :: EnemyAI

definition begin_combat :: "Game \<Rightarrow> Character \<Rightarrow> Enemy list \<Rightarrow> Game" where
  "begin_combat w player enemies =
     w\<lparr>combat_system := start_combat (combat_system w) player enemies\<rparr>"

definition enemy_decides :: "Game \<Rightarrow> Enemy \<Rightarrow> Character \<Rightarrow> enemy_die list \<Rightarrow> rng
    \<Rightarrow> (error + (DiceType \<times> int)) \<times> Game \<times> rng" where
  "enemy_decides w enemy player enemy_dice g =
     (let (outcome, ai', g') = EnemyAI_decide_action (enemy_ai w) enemy player enemy_dice g
      in (outcome, w\<lparr>enemy_ai := ai'\<rparr>, g'))"

section \<open>Concrete objects\<close>

text \<open>
  The warrior's basic combat die as \<open>game_instance.py\<close> builds it (six faces on a d6), a
  player who owns it, and a goblin.
\<close>

definition DiceFace_init :: "string \<Rightarrow> int \<Rightarrow> FaceCategory \<Rightarrow> string \<Rightarrow> DiceFace" where
  "DiceFace_init nm v cat descr =
     \<lparr>face_name = nm, face_value = v, face_category = cat, effect_description = descr,
      face_rarity = COMMON, cost = [], synergies = []\<rparr>"

definition blade_faces :: "DiceFace list" where
  "blade_faces =
     [DiceFace_init ''Strike'' 1 FaceCategory.COMBAT ''A basic attack'',
      DiceFace_init ''Heavy Strike'' 2 FaceCategory.COMBAT
        ''A powerful attack that deals extra damage'',
      DiceFace_init ''Block'' (- 1) FaceCategory.COMBAT ''Reduce incoming damage'',
      DiceFace_init ''Taunt'' 0 FaceCategory.EFFECT ''Force enemies to attack you'',
      DiceFace_init ''Minor Heal'' 1 FaceCategory.EFFECT ''Restore a small amount of health'',
      DiceFace_init ''Cleave'' 1 FaceCategory.COMBAT ''Attack all enemies for reduced damage'']"

definition blade :: Dice where
  "blade =
     \<lparr>dice_name = ''Warrior Blade'', dice_type = DiceType.COMBAT, dice_size = 6,
      dice_rarity = COMMON, description = [], faces = blade_faces, level = 1, xp = 0,
      xp_to_next_level = 100, cooldown = 0, balance_value = 4, imbalance_effect = OVERLOADED,
      imbalance_severity = 1 / 3, modifiers = []\<rparr>"

definition default_stats :: CharacterStats where
  "default_stats =
     \<lparr>health = 100, max_health = 100, mana = 50, max_mana = 50, physical_damage = 10,
      magic_damage = 10, speed = 5, dodge = 1 / 10, crit_chance = 5 / 100, crit_damage = 3 / 2,
      resistances = [(''physical'', 0), (''magic'', 0), (''fire'', 0), (''ice'', 0),
                     (''poison'', 0)],
      status_effects = [], passive_bonuses = []\<rparr>"

definition hero :: Character where
  "hero =
     \<lparr>char_name = ''Hero'', stats = default_stats,
      dice_set = \<lparr>character_dice = [], combat_dice = [blade], encounter_dice = [],
                  special_dice = [], fate_dice = []\<rparr>,
      char_level = 1, char_xp = 0, char_xp_to_next_level = 100, active_faces = [],
      character_class = ''Warrior''\<rparr>"

definition goblin :: Enemy where
  "goblin =
     \<lparr>enemy_name = ''Goblin'', enemy_type = GOBLIN, enemy_level = 1, enemy_health = 30,
      enemy_max_health = 30, enemy_damage = 5, gold_reward = 3, xp_reward = 10\<rparr>"

text \<open>A random source whose draws are all the same: \<open>random.random()\<close> gives \<open>u\<close>, \<open>random.choice\<close> position \<open>k\<close>.\<close>

definition constant_rng :: "real \<Rightarrow> nat \<Rightarrow> rng" where
  "constant_rng u k = \<lparr>uniforms = sconst u, choices = sconst k\<rparr>"

text \<open>The warrior's character die of \<open>game_instance.py\<close>: faces valued 2, 1, 1, -1, -2, -1.\<close>

definition soul_faces :: "DiceFace list" where
  "soul_faces =
     [DiceFace_init ''Strength'' 2 FaceCategory.TRAIT ''Increases physical damage by 2'',
      DiceFace_init ''Vitality'' 1 FaceCategory.TRAIT ''Increases max health by 10%'',
      DiceFace_init ''Battle Sense'' 1 FaceCategory.TRAIT
        ''Increases dodge by 5% and crit chance by 5%'',
      DiceFace_init ''Weakness'' (- 1) FaceCategory.TRAIT ''Decreases physical damage by 1'',
      DiceFace_init ''Slowness'' (- 2) FaceCategory.TRAIT ''Decreases speed by 2 and dodge by 4%'',
      DiceFace_init ''Battle Focus'' (- 1) FaceCategory.TRAIT ''Decreases magic damage by 1'']"

definition frailty :: DiceFace where
  "frailty = DiceFace_init ''Frailty'' (- 3) FaceCategory.TRAIT ''Decreases max health by 30%''"

definition soul :: Dice where
  "soul =
     \<lparr>dice_name = ''Warrior Soul'', dice_type = DiceType.CHARACTER, dice_size = 6,
      dice_rarity = COMMON, description = [], faces = soul_faces, level = 1, xp = 0,
      xp_to_next_level = 100, cooldown = 0, balance_value = 0, imbalance_effect = NONE,
      imbalance_severity = 0, modifiers = []\<rparr>"


text \<open>That die after \<open>replace_face(3, frailty)\<close>: balance -2, unstable with severity 2/12.\<close>

definition unstable_soul :: Dice where
  "unstable_soul =
     \<lparr>dice_name = ''Warrior Soul'', dice_type = DiceType.CHARACTER, dice_size = 6,
      dice_rarity = COMMON, description = [], faces = soul_faces[3 := frailty], level = 1,
      xp = 0, xp_to_next_level = 100, cooldown = 0, balance_value = - 2,
      imbalance_effect = UNSTABLE, imbalance_severity = 2 / 12, modifiers = []\<rparr>"

text \<open>A random source given by its first two \<open>random.choice\<close> positions; later draws are 0.\<close>

definition two_choice_rng :: "real \<Rightarrow> nat \<Rightarrow> nat \<Rightarrow> rng" where
  "two_choice_rng u k1 k2 = \<lparr>uniforms = sconst u, choices = k1 ## k2 ## sconst 0\<rparr>"

text \<open>A goblin with 5 health left, and a player whose only combat die has one face, a cure.\<close>

definition weak_goblin :: Enemy where
  "weak_goblin = goblin\<lparr>enemy_health := 5\<rparr>"

definition cure :: DiceFace where
  "cure = DiceFace_init ''Heal Poison'' 1 FaceCategory.EFFECT ''Cure a poisoning''"

definition poison_blade :: DiceFace where
  "poison_blade = DiceFace_init ''Poison Blade'' 1 FaceCategory.EFFECT ''Poison the target''"

definition one_face_die :: "DiceFace \<Rightarrow> Dice" where
  "one_face_die f =
     \<lparr>dice_name = ''Kit'', dice_type = DiceType.COMBAT, dice_size = 6, dice_rarity = COMMON,
      description = [], faces = [f], level = 1, xp = 0, xp_to_next_level = 100, cooldown = 0,
      balance_value = 1, imbalance_effect = OVERLOADED, imbalance_severity = 1 / 12,
      modifiers = []\<rparr>"

definition owner_of :: "Dice \<Rightarrow> Character" where
  "owner_of d = hero\<lparr>dice_set := (dice_set hero)\<lparr>combat_dice := [d]\<rparr>\<rparr>"

text \<open>The player at 90 of 100 health.\<close>

definition hurt_hero :: Character where
  "hurt_hero = hero\<lparr>stats := default_stats\<lparr>health := 90\<rparr>\<rparr>"

text \<open>The dictionary \<open>roll_die\<close> builds for a face without effect tags.\<close>

definition rolled :: "DiceFace \<Rightarrow> RollResult" where
  "rolled f =
     \<lparr>rr_name = face_name f, rr_value = face_value f,
      rr_category = FaceCategory_name (face_category f),
      rr_description = effect_description f, rr_effects = []\<rparr>"



text \<open>A dragon at a quarter of its health, and its dice: a plain claw and a breath die.\<close>

definition dragon :: Enemy where
  "dragon =
     \<lparr>enemy_name = ''Flamescale'', enemy_type = DRAGON, enemy_level = 10, enemy_health = 25,
      enemy_max_health = 100, enemy_damage = 20, gold_reward = 500, xp_reward = 500\<rparr>"

definition claw_info :: DiceInfo where
  "claw_info =
     \<lparr>info_faces = [\<lparr>info_name = ''Claw'', info_category = ''COMBAT'', info_value = 2\<rparr>]\<rparr>"

definition breath_info :: DiceInfo where
  "breath_info =
     \<lparr>info_faces = [\<lparr>info_name = ''Ember'', info_category = ''COMBAT'', info_value = 1\<rparr>,
                    \<lparr>info_name = ''Ultimate Inferno'', info_category = ''COMBAT'',
                     info_value = 5\<rparr>]\<rparr>"

definition dragon_dice :: "enemy_die list" where
  "dragon_dice = [(DiceType.COMBAT, 0, claw_info), (DiceType.COMBAT, 1, breath_info)]"

definition new_game :: Game where
  "new_game = \<lparr>combat_system = \<lparr>entries = []\<rparr>, enemy_ai = EnemyAI_init\<rparr>"

definition goblin_king :: Enemy where
  "goblin_king = goblin\<lparr>enemy_name := ''Goblin King''\<rparr>"

fun is_boss_object :: "AIBehavior \<Rightarrow> bool" where
  "is_boss_object (BossBehavior b) = True"
| "is_boss_object other = False"

definition wyrm :: Enemy where
  "wyrm = dragon\<lparr>enemy_name := ''Wyrm''\<rparr>"

section \<open>Verified properties\<close>

lemma blade_constructed: "Dice_init ''Warrior Blade'' DiceType.COMBAT 6 blade_faces = Inr blade"
  by (simp add: Dice_init_def Dice_post_init_def calculate_balance_def blade_faces_def blade_def DiceFace_init_def
      Let_def)

subsection \<open>Rolling on cooldown\<close>

text \<open>
  C6. A die with at least one face and cooldown \<open>k > 0\<close>: \<open>roll\<close> leaves the cooldown at
  \<open>k - 1\<close>, returns no face and no effect tag, with the message reporting \<open>k\<close> turns, and
  leaves xp and level (and every other field, and the random source) as they were.
\<close>

theorem roll_on_cooldown:
  assumes "faces d \<noteq> []" and "cooldown d = k" and "0 < k"
  shows "roll d g =
           ((d\<lparr>cooldown := k - 1\<rparr>, None,
             dice_name d @ '' is on cooldown for '' @ str_int k @ '' more turns.'', []), g)
         \<and> xp (fst (fst (roll d g))) = xp d
         \<and> level (fst (fst (roll d g))) = level d
         \<and> cooldown (fst (fst (roll d g))) = k - 1"
  using assms by (simp add: roll_def Let_def)

theorem roll_on_cooldown_witness:
  "faces (blade\<lparr>cooldown := 2\<rparr>) \<noteq> [] \<and> cooldown (blade\<lparr>cooldown := 2\<rparr>) = 2 \<and> (0::int) < 2
   \<and> roll (blade\<lparr>cooldown := 2\<rparr>) (constant_rng 0 0) =
       ((blade\<lparr>cooldown := 1\<rparr>, None, ''Warrior Blade is on cooldown for 2 more turns.'', []),
        constant_rng 0 0)"
proof -
  have f: "faces (blade\<lparr>cooldown := 2\<rparr>) \<noteq> []"
    by (simp add: blade_def blade_faces_def)
  have c: "cooldown (blade\<lparr>cooldown := 2\<rparr>) = 2" by simp
  have s: "str_int 2 = ''2''"
    by (simp add: str_int_def str_nat.simps digit_char_def)
  show ?thesis
    using roll_on_cooldown [OF f c, of "constant_rng 0 0"] f s
    by (simp add: blade_def)
qed

subsection \<open>Invalid targets\<close>

text \<open>
  C7. \<open>player_turn\<close> with an empty list of enemies, a negative target index or one past the
  end of the list fails with the message \<open>Invalid target!\<close> and changes nothing: the combat
  log, the player (with every die, its cooldown and xp), the enemies and the random source
  are returned as they were given, so no die was rolled.
\<close>

theorem player_turn_invalid_target:
  assumes "enemies = [] \<or> target_index < 0 \<or> target_index \<ge> int (length enemies)"
  shows "player_turn cs player enemies ty dice_index target_index g =
           Inr ((cs, player, enemies,
                 \<lparr>success = False, message = ''Invalid target!'', damage_dealt = 0,
                  healing_done = 0, status_applied = None, target_defeated = False\<rparr>), g)"
  using assms by (simp add: player_turn_def)

theorem player_turn_invalid_target_witness:
  "([goblin] = [] \<or> (1::int) < 0 \<or> 1 \<ge> int (length [goblin]))
   \<and> player_turn \<lparr>entries = []\<rparr> hero [goblin] DiceType.COMBAT 0 1 (constant_rng 0 0) =
       Inr ((\<lparr>entries = []\<rparr>, hero, [goblin],
             \<lparr>success = False, message = ''Invalid target!'', damage_dealt = 0,
              healing_done = 0, status_applied = None, target_defeated = False\<rparr>),
            constant_rng 0 0)"
proof -
  have h: "[goblin] = [] \<or> (1::int) < 0 \<or> 1 \<ge> int (length [goblin])" by simp
  show ?thesis
    using player_turn_invalid_target [OF h] h by simp
qed

subsection \<open>Balance of a die\<close>









lemma unstable_soul_reached: "apply_face_ops soul [ReplaceFace 3 frailty] = Inr unstable_soul"
  by (simp add: calculate_balance_def soul_faces_def DiceFace_init_def Let_def
      replace_face_def frailty_def unstable_soul_def soul_def)

text \<open>The two examples of the specification, computed.\<close>

lemma balance_example_none:
  "map_sum id (\<lambda>d. (balance_value d, imbalance_effect d, imbalance_severity d))
     (Dice_init ''Warrior Soul'' DiceType.CHARACTER 6 soul_faces) = Inr (0, NONE, 0)"
  by (simp add: Dice_init_def Dice_post_init_def calculate_balance_def soul_faces_def DiceFace_init_def Let_def)

lemma balance_example_unstable:
  "map_sum id (\<lambda>d. (balance_value d, imbalance_effect d, imbalance_severity d))
     (case Dice_init ''Warrior Soul'' DiceType.CHARACTER 6 soul_faces of
        Inl e \<Rightarrow> Inl e
      | Inr d0 \<Rightarrow> apply_face_ops d0 [ReplaceFace 3 frailty]) = Inr (- 2, UNSTABLE, 2 / 12)"
  by (simp add: Dice_init_def Dice_post_init_def calculate_balance_def soul_faces_def DiceFace_init_def Let_def
      replace_face_def frailty_def)

subsection \<open>Experience and levels\<close>

lemma py_int_three_halves: "0 \<le> t \<Longrightarrow> py_int (of_int t * (3 / 2)) = (3 * t) div 2"
proof -
  assume "0 \<le> t"
  have "\<lfloor>of_int (3 * t) / of_int 2 :: real\<rfloor> = (3 * t) div 2"
    by (rule floor_divide_of_int_eq)
  then show ?thesis using \<open>0 \<le> t\<close> by (simp add: py_int_def mult.commute)
qed

lemma add_xp_cases:
  "add_xp d a =
     (if xp d + a \<ge> xp_to_next_level d
      then (d\<lparr>level := level d + 1, xp := xp d + a - xp_to_next_level d,
               xp_to_next_level := py_int (of_int (xp_to_next_level d) * (3 / 2))\<rparr>, True)
      else (d\<lparr>xp := xp d + a\<rparr>, False))"
  by (simp add: add_xp_def level_up_def Let_def)

lemma Character_add_xp_cases:
  "char_level (fst (Character_add_xp c a)) =
      (if char_xp c + a \<ge> char_xp_to_next_level c then char_level c + 1 else char_level c)
   \<and> char_xp (fst (Character_add_xp c a)) =
      (if char_xp c + a \<ge> char_xp_to_next_level c then char_xp c + a - char_xp_to_next_level c
       else char_xp c + a)
   \<and> char_xp_to_next_level (fst (Character_add_xp c a)) =
      (if char_xp c + a \<ge> char_xp_to_next_level c
       then py_int (of_int (char_xp_to_next_level c) * (3 / 2)) else char_xp_to_next_level c)
   \<and> snd (Character_add_xp c a) = (char_xp c + a \<ge> char_xp_to_next_level c)"
  by (simp add: Character_add_xp_def Character_level_up_def Let_def)

text \<open>
  C1, as the code has it. \<open>add_xp\<close> on a die and on the character tests the threshold once:
  when \<open>xp + amount\<close> reaches \<open>xp_to_next_level\<close> the level rises by exactly one, the
  threshold is subtracted from xp and the threshold becomes \<open>int(threshold * 1.5)\<close>;
  otherwise only xp changes. One call never raises the level by more than one. With a
  positive threshold, the resulting xp lies in \<open>[0, xp_to_next_level)\<close> exactly when
  \<open>0 \<le> xp + amount < threshold + int(threshold * 1.5)\<close>.
\<close>

theorem add_xp_levels_once:
  "level (fst (add_xp d a)) =
      (if xp d + a \<ge> xp_to_next_level d then level d + 1 else level d)
   \<and> xp (fst (add_xp d a)) =
      (if xp d + a \<ge> xp_to_next_level d then xp d + a - xp_to_next_level d else xp d + a)
   \<and> xp_to_next_level (fst (add_xp d a)) =
      (if xp d + a \<ge> xp_to_next_level d
       then py_int (of_int (xp_to_next_level d) * (3 / 2)) else xp_to_next_level d)
   \<and> (0 < xp_to_next_level d \<longrightarrow>
        (0 \<le> xp (fst (add_xp d a)) \<and> xp (fst (add_xp d a)) < xp_to_next_level (fst (add_xp d a)))
        = (0 \<le> xp d + a
           \<and> xp d + a < xp_to_next_level d + py_int (of_int (xp_to_next_level d) * (3 / 2))))
   \<and> char_level (fst (Character_add_xp c a)) =
      (if char_xp c + a \<ge> char_xp_to_next_level c then char_level c + 1 else char_level c)
   \<and> char_xp (fst (Character_add_xp c a)) =
      (if char_xp c + a \<ge> char_xp_to_next_level c then char_xp c + a - char_xp_to_next_level c
       else char_xp c + a)
   \<and> char_xp_to_next_level (fst (Character_add_xp c a)) =
      (if char_xp c + a \<ge> char_xp_to_next_level c
       then py_int (of_int (char_xp_to_next_level c) * (3 / 2)) else char_xp_to_next_level c)
   \<and> (0 < char_xp_to_next_level c \<longrightarrow>
        (0 \<le> char_xp (fst (Character_add_xp c a))
         \<and> char_xp (fst (Character_add_xp c a)) < char_xp_to_next_level (fst (Character_add_xp c a)))
        = (0 \<le> char_xp c + a
           \<and> char_xp c + a
               < char_xp_to_next_level c + py_int (of_int (char_xp_to_next_level c) * (3 / 2))))"
proof -
  have pos: "\<And>t::int. 0 < t \<Longrightarrow> 0 < py_int (of_int t * (3 / 2))"
  proof -
    fix t :: int assume "0 < t"
    then have "py_int (of_int t * (3 / 2)) = (3 * t) div 2"
      using py_int_three_halves [of t] by simp
    with \<open>0 < t\<close> show "0 < py_int (of_int t * (3 / 2))" by simp
  qed
  have d: "0 < xp_to_next_level d \<longrightarrow>
        (0 \<le> xp (fst (add_xp d a)) \<and> xp (fst (add_xp d a)) < xp_to_next_level (fst (add_xp d a)))
        = (0 \<le> xp d + a
           \<and> xp d + a < xp_to_next_level d + py_int (of_int (xp_to_next_level d) * (3 / 2)))"
    using pos [of "xp_to_next_level d"] by (auto simp add: add_xp_cases)
  have c: "0 < char_xp_to_next_level c \<longrightarrow>
        (0 \<le> char_xp (fst (Character_add_xp c a))
         \<and> char_xp (fst (Character_add_xp c a)) < char_xp_to_next_level (fst (Character_add_xp c a)))
        = (0 \<le> char_xp c + a
           \<and> char_xp c + a
               < char_xp_to_next_level c + py_int (of_int (char_xp_to_next_level c) * (3 / 2)))"
    using pos [of "char_xp_to_next_level c"] Character_add_xp_cases [of c a] by auto
  show ?thesis
    using d c Character_add_xp_cases [of c a] by (simp add: add_xp_cases)
qed

text \<open>
  C1 as stated fails: 250 xp against the threshold 100 gives one level, and leaves xp at 150
  against the new threshold 150, outside \<open>[0, xp_to_next_level)\<close>.
\<close>

theorem add_xp_loop_counterexample:
  "xp blade + 250 \<ge> xp_to_next_level blade
   \<and> level (fst (add_xp blade 250)) = level blade + 1
   \<and> xp (fst (add_xp blade 250)) = 150
   \<and> xp_to_next_level (fst (add_xp blade 250)) = 150
   \<and> \<not> xp (fst (add_xp blade 250)) < xp_to_next_level (fst (add_xp blade 250))"
  by (simp add: add_xp_def level_up_def Let_def blade_def py_int_def)

theorem add_xp_levels_once_witness:
  "(0 < xp_to_next_level blade)
   \<and> level (fst (add_xp blade 120)) = 2 \<and> xp (fst (add_xp blade 120)) = 20
   \<and> xp_to_next_level (fst (add_xp blade 120)) = 150
   \<and> char_level (fst (Character_add_xp hero 120)) = 2
   \<and> char_xp (fst (Character_add_xp hero 120)) = 20
   \<and> char_xp_to_next_level (fst (Character_add_xp hero 120)) = 150"
proof -
  have p: "py_int (of_int 100 * (3 / 2)) = 150" by (simp add: py_int_def)
  show ?thesis
    using add_xp_levels_once [of blade 120 hero] p
    by (simp add: blade_def hero_def)
qed

subsection \<open>The unstable double roll\<close>

lemma unstable_soul_constructed:
  "(case Dice_init ''Warrior Soul'' DiceType.CHARACTER 6 soul_faces of
      Inl e \<Rightarrow> Inl e
    | Inr d0 \<Rightarrow> apply_face_ops d0 [ReplaceFace 3 frailty]) = Inr unstable_soul"
  by (simp add: Dice_init_def Dice_post_init_def calculate_balance_def soul_faces_def DiceFace_init_def Let_def
      replace_face_def frailty_def unstable_soul_def)

text \<open>
  C2, as the code has it. An unstable die with faces, not on cooldown, whose severity check
  succeeds: \<open>roll\<close> draws two faces from the full list (two separate draws, the same position
  allowed twice), returns the first drawn only if its value is strictly lower and the second
  drawn otherwise, so that a tie goes to the second drawn face; the result has the lower of
  the two values and the tag \<open>Unstable: Double Roll\<close>, and the die (its xp and level too) is
  unchanged.
\<close>

theorem unstable_double_roll:
  assumes "imbalance_effect d = UNSTABLE" and "faces d \<noteq> []" and "\<not> 0 < cooldown d"
    and "fst (random_random g) < imbalance_severity d"
  shows "(let roll1 = faces d ! (shd (choices g) mod length (faces d));
              roll2 = faces d ! (shd (stl (choices g)) mod length (faces d));
              result = (if face_value roll1 < face_value roll2 then roll1 else roll2)
          in roll d g =
               ((d, Some result,
                 ''UNSTABLE: Rolled '' @ face_name roll1 @ '' and '' @ face_name roll2
                 @ '', took worse result '' @ face_name result @ ''.'',
                 [''Unstable: Double Roll'']),
                g\<lparr>uniforms := stl (uniforms g), choices := stl (stl (choices g))\<rparr>)
             \<and> roll1 \<in> set (faces d) \<and> roll2 \<in> set (faces d)
             \<and> face_value result = min (face_value roll1) (face_value roll2)
             \<and> (face_value roll1 = face_value roll2 \<longrightarrow> result = roll2))
         \<and> xp (fst (fst (roll d g))) = xp d \<and> level (fst (fst (roll d g))) = level d"
  using assms
  by (simp add: roll_def random_random_def random_choice_def Let_def)

theorem unstable_double_roll_witness:
  "imbalance_effect unstable_soul = UNSTABLE \<and> faces unstable_soul \<noteq> []
   \<and> \<not> 0 < cooldown unstable_soul
   \<and> fst (random_random (two_choice_rng 0 0 3)) < imbalance_severity unstable_soul
   \<and> fst (snd (fst (roll unstable_soul (two_choice_rng 0 0 3)))) = Some frailty
   \<and> snd (snd (snd (fst (roll unstable_soul (two_choice_rng 0 0 3))))) = [''Unstable: Double Roll'']
   \<and> fst (fst (roll unstable_soul (two_choice_rng 0 0 3))) = unstable_soul"
proof -
  have a: "imbalance_effect unstable_soul = UNSTABLE" by (simp add: unstable_soul_def)
  have b: "faces unstable_soul \<noteq> []" by (simp add: unstable_soul_def soul_faces_def)
  have c: "\<not> 0 < cooldown unstable_soul" by (simp add: unstable_soul_def)
  have e: "fst (random_random (two_choice_rng 0 0 3)) < imbalance_severity unstable_soul"
    by (simp add: unstable_soul_def random_random_def two_choice_rng_def)
  have l: "length (faces unstable_soul) = 6" by (simp add: unstable_soul_def soul_faces_def)
  have f0: "faces unstable_soul ! 0 = DiceFace_init ''Strength'' 2 FaceCategory.TRAIT ''Increases physical damage by 2''"
    by (simp add: unstable_soul_def soul_faces_def)
  have f3: "faces unstable_soul ! 3 = frailty"
    by (simp add: unstable_soul_def soul_faces_def)
  show ?thesis
    using unstable_double_roll [OF a b c e] a b c e l f0 f3
    by (simp add: two_choice_rng_def Let_def DiceFace_init_def frailty_def)
qed

text \<open>
  C2 as stated fails on the tie: with Vitality (value 1) drawn first and Battle Sense
  (value 1) drawn second, \<open>roll\<close> returns Battle Sense, the second drawn face.
\<close>

theorem double_roll_tie_counterexample:
  "imbalance_effect unstable_soul = UNSTABLE \<and> faces unstable_soul \<noteq> []
   \<and> cooldown unstable_soul = 0
   \<and> fst (random_random (two_choice_rng 0 1 2)) < imbalance_severity unstable_soul
   \<and> fst (random_choice (faces unstable_soul) (two_choice_rng 0 1 2)) = soul_faces ! 1
   \<and> fst (random_choice (faces unstable_soul)
            (snd (random_choice (faces unstable_soul) (two_choice_rng 0 1 2)))) = soul_faces ! 2
   \<and> face_value (soul_faces ! 1) = face_value (soul_faces ! 2)
   \<and> soul_faces ! 2 \<noteq> soul_faces ! 1
   \<and> fst (snd (fst (roll unstable_soul (two_choice_rng 0 1 2)))) = Some (soul_faces ! 2)"
  by (simp add: roll_def random_random_def random_choice_def Let_def unstable_soul_def
      soul_faces_def two_choice_rng_def DiceFace_init_def frailty_def)

subsection \<open>The player's turn\<close>

lemma FaceCategory_name_TRAIT: "FaceCategory_name c = ''TRAIT'' \<longleftrightarrow> c = FaceCategory.TRAIT"
  by (cases c) simp_all

lemma roll_die_stats:
  assumes "roll_die player ty di g = Inr ((player1, Some rr, msg), g1)"
    and "rr_category rr \<noteq> ''TRAIT''"
  shows "stats player1 = stats player"
proof -
  let ?dl = "get_dice_list (dice_set player) ty"
  from assms(1) have inr: "\<not> (di < 0 \<or> di \<ge> int (length ?dl))"
    by (auto simp add: roll_die_def Let_def)
  obtain die' result m effects g' where r: "roll (?dl ! nat di) g = ((die', result, m, effects), g')"
    by (metis prod_cases3 surj_pair)
  from assms(1) inr r obtain face where f: "result = Some face"
    by (cases result) (auto simp add: roll_die_def Let_def)
  show ?thesis
  proof (cases "face_category face = FaceCategory.TRAIT")
    case True
    with assms inr r f show ?thesis
      by (auto simp add: roll_die_def Let_def split: sum.splits prod.splits if_splits)
  next
    case False
    with assms(1) inr r f show ?thesis
      by (auto simp add: roll_die_def Let_def split: if_splits)
  qed
qed

lemma py_int_nonneg: "0 \<le> x \<Longrightarrow> py_int x = \<lfloor>x\<rfloor>"
  by (simp add: py_int_def)

text \<open>
  C4, as the code has it. A \<open>player_turn\<close> with a valid target whose roll gives a face of
  category COMBAT: without a critical hit \<open>damage_dealt\<close> is
  \<open>int(physical_damage * m) + face.value\<close> with \<open>m\<close> 1.5 for a name containing Heavy, else 0.8
  for one containing Quick, else 1.0; on a critical hit it is \<open>int\<close> of that value times
  \<open>crit_damage\<close>. \<open>int\<close> truncates toward zero, which is the floor when the product is not
  negative. The target's health becomes its health minus \<open>damage_dealt\<close> when that is
  positive and 0 otherwise, and \<open>target_defeated\<close> tells which.
\<close>

theorem combat_face_damage:
  assumes "enemies \<noteq> []" and "0 \<le> ti" and "ti < int (length enemies)"
    and "roll_die player ty di g = Inr ((player1, Some rr, msg), g1)"
    and "rr_category rr = ''COMBAT''"
  shows "(let m = (if str_contains ''Heavy'' (rr_name rr) then 3 / 2
                   else if str_contains ''Quick'' (rr_name rr) then 4 / 5 else 1);
              plain = py_int (of_int (physical_damage (stats player)) * m) + rr_value rr;
              critical = (fst (random_random g1) < crit_chance (stats player));
              dealt = (if critical then py_int (of_int plain * crit_damage (stats player))
                       else plain);
              target = enemies ! nat ti;
              left = (if enemy_health target - dealt \<le> 0 then 0 else enemy_health target - dealt)
          in (\<exists>res. player_turn cs player enemies ty di ti g =
                       Inr ((add_entry cs (message res), player1,
                             enemies[nat ti := target\<lparr>enemy_health := left\<rparr>], res),
                            snd (random_random g1))
                \<and> success res \<and> damage_dealt res = dealt
                \<and> target_defeated res = (enemy_health target - dealt \<le> 0))
             \<and> (0 \<le> physical_damage (stats player) \<longrightarrow>
                  plain = \<lfloor>of_int (physical_damage (stats player)) * m\<rfloor> + rr_value rr)
             \<and> (critical \<and> 0 \<le> of_int plain * crit_damage (stats player) \<longrightarrow>
                  dealt = \<lfloor>of_int plain * crit_damage (stats player)\<rfloor>))"
proof -
  have s: "stats player1 = stats player"
    using roll_die_stats [OF assms(4)] assms(5) by simp
  have v: "\<not> (enemies = [] \<or> ti < 0 \<or> ti \<ge> int (length enemies))"
    using assms(1-3) by simp
  show ?thesis
    using v assms(4,5) s
    by (simp add: player_turn_def process_player_action_def handle_combat_face_def Let_def
        split_beta py_int_nonneg)
qed

text \<open>
  C5. A \<open>player_turn\<close> with a valid target whose roll gives a face of category EFFECT with
  Heal in its name: the nominal amount is \<open>30 + 2 * value\<close> if the name contains Major, else
  \<open>15 + value\<close>; the player's health becomes the minimum of health plus that amount and
  \<open>max_health\<close>, so it does not exceed \<open>max_health\<close>; \<open>healing_done\<close> and the message report
  the new health minus the old health.
\<close>

theorem healing_face:
  assumes "enemies \<noteq> []" and "0 \<le> ti" and "ti < int (length enemies)"
    and "roll_die player ty di g = Inr ((player1, Some rr, msg), g1)"
    and "rr_category rr = ''EFFECT''"
    and "str_contains ''Heal'' (rr_name rr)"
  shows "(let nominal = (if str_contains ''Major'' (rr_name rr) then 30 + 2 * rr_value rr
                         else 15 + rr_value rr);
              healed = min (health (stats player) + nominal) (max_health (stats player));
              actual = healed - health (stats player);
              line = rr_name rr @ '' restores '' @ str_int actual @ '' health''
          in player_turn cs player enemies ty di ti g =
               Inr ((add_entry cs line, player1\<lparr>stats := (stats player1)\<lparr>health := healed\<rparr>\<rparr>,
                     enemies,
                     \<lparr>success = True, message = line, damage_dealt = 0, healing_done = actual,
                      status_applied = None, target_defeated = False\<rparr>), g1)
             \<and> healed \<le> max_health (stats player))"
proof -
  have s: "stats player1 = stats player"
    using roll_die_stats [OF assms(4)] assms(5) by simp
  have v: "\<not> (enemies = [] \<or> ti < 0 \<or> ti \<ge> int (length enemies))"
    using assms(1-3) by simp
  show ?thesis
    using v assms(4,5,6) s
    by (simp add: player_turn_def process_player_action_def handle_effect_face_def
        handle_healing_def Let_def mult.commute)
qed

text \<open>
  C8, as the code has it. A \<open>player_turn\<close> with a valid target whose roll gives a face of
  category EFFECT whose name does not contain Heal and contains Bleed, Poison or Stun:
  the result is a success with \<open>status_applied\<close> Bleeding if the name contains Bleed, else
  Poisoned if it contains Poison, else Stunned, the message names 3, 3 or 1 turns, and
  nothing but the log is changed beyond what the roll itself did: the enemies (the target
  with them) and the player's stats are as before.
\<close>

theorem status_face_message_only:
  assumes "enemies \<noteq> []" and "0 \<le> ti" and "ti < int (length enemies)"
    and "roll_die player ty di g = Inr ((player1, Some rr, msg), g1)"
    and "rr_category rr = ''EFFECT''"
    and "\<not> str_contains ''Heal'' (rr_name rr)"
    and "str_contains ''Bleed'' (rr_name rr) \<or> str_contains ''Poison'' (rr_name rr)
         \<or> str_contains ''Stun'' (rr_name rr)"
  shows "(let effect = (if str_contains ''Bleed'' (rr_name rr) then ''Bleeding''
                        else if str_contains ''Poison'' (rr_name rr) then ''Poisoned''
                        else ''Stunned'');
              turns = (if str_contains ''Bleed'' (rr_name rr) then ''3''
                       else if str_contains ''Poison'' (rr_name rr) then ''3''
                       else ''1'');
              line = rr_name rr @ '' applies '' @ effect @ '' to ''
                     @ enemy_name (enemies ! nat ti) @ '' for '' @ turns @ '' turns''
          in player_turn cs player enemies ty di ti g =
               Inr ((add_entry cs line, player1, enemies,
                     \<lparr>success = True, message = line, damage_dealt = 0, healing_done = 0,
                      status_applied = Some effect, target_defeated = False\<rparr>), g1))
         \<and> stats player1 = stats player"
proof -
  have s: "stats player1 = stats player"
    using roll_die_stats [OF assms(4)] assms(5) by simp
  have v: "\<not> (enemies = [] \<or> ti < 0 \<or> ti \<ge> int (length enemies))"
    using assms(1-3) by simp
  have n: "str_int 3 = ''3''" "str_int 1 = ''1''"
    by (simp_all add: str_int_def str_nat.simps digit_char_def)
  show ?thesis
    using v assms(4-7) s n
    by (auto simp add: player_turn_def process_player_action_def handle_effect_face_def
        handle_status_effect_def Let_def)
qed

text \<open>Evaluation at the concrete objects.\<close>

lemmas eval_defs =
  player_turn_def roll_die_def roll_def add_xp_def level_up_def random_choice_def
  random_random_def process_player_action_def handle_combat_face_def handle_effect_face_def
  handle_healing_def handle_status_effect_def add_entry_def Let_def
  hero_def hurt_hero_def default_stats_def blade_def blade_faces_def goblin_def weak_goblin_def
  constant_rng_def DiceFace_init_def one_face_die_def owner_of_def cure_def poison_blade_def
  rolled_def str_int_def str_nat.simps digit_char_def py_int_def

lemma roll_heavy:
  "roll_die hero DiceType.COMBAT 0 (constant_rng (1 / 2) 1) =
     Inr (((owner_of (blade\<lparr>xp := 10\<rparr>))\<lparr>active_faces := [''Heavy Strike'']\<rparr>,
           Some (rolled (blade_faces ! 1)), ''Normal roll. ''), constant_rng (1 / 2) 1)"
  by (simp add: eval_defs)

text \<open>
  C4 as stated fails when the damage exceeds the target's health: a Heavy Strike for 17
  against a goblin with 5 health leaves it at 0, not at 5 - 17.
\<close>

theorem overkill_counterexample:
  "player_turn \<lparr>entries = []\<rparr> hero [weak_goblin] DiceType.COMBAT 0 0 (constant_rng (1 / 2) 1) =
     Inr ((\<lparr>entries = [''Heavy Strike deals 17 damage to Goblin! Goblin is defeated!'']\<rparr>,
           (owner_of (blade\<lparr>xp := 10\<rparr>))\<lparr>active_faces := [''Heavy Strike'']\<rparr>,
           [weak_goblin\<lparr>enemy_health := 0\<rparr>],
           \<lparr>success = True,
            message = ''Heavy Strike deals 17 damage to Goblin! Goblin is defeated!'',
            damage_dealt = 17, healing_done = 0, status_applied = None,
            target_defeated = True\<rparr>),
          constant_rng (1 / 2) 1)
   \<and> enemy_health weak_goblin = 5
   \<and> enemy_health weak_goblin - 17 \<noteq> 0"
  by (simp add: eval_defs)

lemma roll_minor_heal:
  "roll_die hurt_hero DiceType.COMBAT 0 (constant_rng (1 / 2) 4) =
     Inr (((owner_of (blade\<lparr>xp := 10\<rparr>))\<lparr>active_faces := [''Minor Heal''],
              stats := default_stats\<lparr>health := 90\<rparr>\<rparr>,
           Some (rolled (blade_faces ! 4)), ''Normal roll. ''), constant_rng (1 / 2) 4)"
  by (simp add: eval_defs)

lemma roll_poison_blade:
  "roll_die (owner_of (one_face_die poison_blade)) DiceType.COMBAT 0 (constant_rng (1 / 2) 0) =
     Inr (((owner_of ((one_face_die poison_blade)\<lparr>xp := 10\<rparr>))\<lparr>active_faces := [''Poison Blade'']\<rparr>,
           Some (rolled poison_blade), ''Normal roll. ''), constant_rng (1 / 2) 0)"
  by (simp add: eval_defs)

text \<open>
  C8 as stated fails for a name that also contains Heal: the EFFECT face Heal Poison is
  handled as healing, and \<open>status_applied\<close> stays \<open>None\<close>.
\<close>

theorem heal_before_status_counterexample:
  "face_category cure = FaceCategory.EFFECT
   \<and> str_contains ''Poison'' (face_name cure)
   \<and> player_turn \<lparr>entries = []\<rparr> (owner_of (one_face_die cure)) [goblin] DiceType.COMBAT 0 0
        (constant_rng (1 / 2) 0) =
     Inr ((\<lparr>entries = [''Heal Poison restores 0 health'']\<rparr>,
           (owner_of ((one_face_die cure)\<lparr>xp := 10\<rparr>))\<lparr>active_faces := [''Heal Poison'']\<rparr>,
           [goblin],
           \<lparr>success = True, message = ''Heal Poison restores 0 health'', damage_dealt = 0,
            healing_done = 0, status_applied = None, target_defeated = False\<rparr>),
          constant_rng (1 / 2) 0)"
  by (simp add: eval_defs)

theorem combat_face_damage_witness:
  "[goblin] \<noteq> [] \<and> (0::int) \<le> 0 \<and> (0::int) < int (length [goblin])
   \<and> roll_die hero DiceType.COMBAT 0 (constant_rng (1 / 2) 1) =
       Inr (((owner_of (blade\<lparr>xp := 10\<rparr>))\<lparr>active_faces := [''Heavy Strike'']\<rparr>,
             Some (rolled (blade_faces ! 1)), ''Normal roll. ''), constant_rng (1 / 2) 1)
   \<and> rr_category (rolled (blade_faces ! 1)) = ''COMBAT''
   \<and> (\<exists>res. player_turn \<lparr>entries = []\<rparr> hero [goblin] DiceType.COMBAT 0 0
                 (constant_rng (1 / 2) 1) =
               Inr ((add_entry \<lparr>entries = []\<rparr> (message res),
                     (owner_of (blade\<lparr>xp := 10\<rparr>))\<lparr>active_faces := [''Heavy Strike'']\<rparr>,
                     [goblin\<lparr>enemy_health := 13\<rparr>], res),
                    constant_rng (1 / 2) 1)
          \<and> success res \<and> damage_dealt res = 17 \<and> \<not> target_defeated res)"
proof -
  have h1: "[goblin] \<noteq> []" by simp
  have h2: "(0::int) \<le> 0" by simp
  have h3: "(0::int) < int (length [goblin])" by simp
  have h5: "rr_category (rolled (blade_faces ! 1)) = ''COMBAT''"
    by (simp add: rolled_def blade_faces_def DiceFace_init_def)
  have nm: "rr_name (rolled (blade_faces ! 1)) = ''Heavy Strike''"
    "rr_value (rolled (blade_faces ! 1)) = 2"
    "rr_name (rolled (blade_faces ! Suc 0)) = ''Heavy Strike''"
    "rr_value (rolled (blade_faces ! Suc 0)) = 2"
    by (simp_all add: rolled_def blade_faces_def DiceFace_init_def)
  have st: "physical_damage (stats hero) = 10" "crit_chance (stats hero) = 5 / 100"
    by (simp_all add: hero_def default_stats_def)
  have rn: "fst (random_random (constant_rng (1 / 2) (Suc 0))) = 1 / 2"
    "snd (random_random (constant_rng (1 / 2) (Suc 0))) = constant_rng (1 / 2) (Suc 0)"
    by (simp_all add: random_random_def constant_rng_def)
  have gh: "enemy_health goblin = 30" by (simp add: goblin_def)
  from combat_face_damage [OF h1 h2 h3 roll_heavy h5, of "\<lparr>entries = []\<rparr>"]
  have "\<exists>res. player_turn \<lparr>entries = []\<rparr> hero [goblin] DiceType.COMBAT 0 0
                 (constant_rng (1 / 2) 1) =
               Inr ((add_entry \<lparr>entries = []\<rparr> (message res),
                     (owner_of (blade\<lparr>xp := 10\<rparr>))\<lparr>active_faces := [''Heavy Strike'']\<rparr>,
                     [goblin\<lparr>enemy_health := 13\<rparr>], res),
                    constant_rng (1 / 2) 1)
          \<and> success res \<and> damage_dealt res = 17 \<and> \<not> target_defeated res"
    by (simp add: Let_def nm st rn gh py_int_def)
  with h1 h2 h3 h5 roll_heavy show ?thesis by blast
qed

theorem healing_face_witness:
  "[goblin] \<noteq> [] \<and> (0::int) \<le> 0 \<and> (0::int) < int (length [goblin])
   \<and> roll_die hurt_hero DiceType.COMBAT 0 (constant_rng (1 / 2) 4) =
       Inr (((owner_of (blade\<lparr>xp := 10\<rparr>))\<lparr>active_faces := [''Minor Heal''],
                stats := default_stats\<lparr>health := 90\<rparr>\<rparr>,
             Some (rolled (blade_faces ! 4)), ''Normal roll. ''), constant_rng (1 / 2) 4)
   \<and> rr_category (rolled (blade_faces ! 4)) = ''EFFECT''
   \<and> str_contains ''Heal'' (rr_name (rolled (blade_faces ! 4)))
   \<and> player_turn \<lparr>entries = []\<rparr> hurt_hero [goblin] DiceType.COMBAT 0 0 (constant_rng (1 / 2) 4) =
       Inr ((\<lparr>entries = [''Minor Heal restores 10 health'']\<rparr>,
             (owner_of (blade\<lparr>xp := 10\<rparr>))\<lparr>active_faces := [''Minor Heal'']\<rparr>,
             [goblin],
             \<lparr>success = True, message = ''Minor Heal restores 10 health'', damage_dealt = 0,
              healing_done = 10, status_applied = None, target_defeated = False\<rparr>),
            constant_rng (1 / 2) 4)"
proof -
  have h1: "[goblin] \<noteq> []" by simp
  have h2: "(0::int) \<le> 0" by simp
  have h3: "(0::int) < int (length [goblin])" by simp
  have h5: "rr_category (rolled (blade_faces ! 4)) = ''EFFECT''"
    by (simp add: rolled_def blade_faces_def DiceFace_init_def)
  have nm: "rr_name (rolled (blade_faces ! 4)) = ''Minor Heal''"
    "rr_value (rolled (blade_faces ! 4)) = 1"
    by (simp_all add: rolled_def blade_faces_def DiceFace_init_def)
  have h6: "str_contains ''Heal'' (rr_name (rolled (blade_faces ! 4)))"
    by (simp add: nm)
  have st: "health (stats hurt_hero) = 90" "max_health (stats hurt_hero) = 100"
    by (simp_all add: hurt_hero_def default_stats_def)
  have n: "str_int 10 = ''10''" by (simp add: str_int_def str_nat.simps digit_char_def)
  from healing_face [OF h1 h2 h3 roll_minor_heal h5 h6, of "\<lparr>entries = []\<rparr>"]
  have "player_turn \<lparr>entries = []\<rparr> hurt_hero [goblin] DiceType.COMBAT 0 0 (constant_rng (1 / 2) 4) =
       Inr ((\<lparr>entries = [''Minor Heal restores 10 health'']\<rparr>,
             (owner_of (blade\<lparr>xp := 10\<rparr>))\<lparr>active_faces := [''Minor Heal'']\<rparr>,
             [goblin],
             \<lparr>success = True, message = ''Minor Heal restores 10 health'', damage_dealt = 0,
              healing_done = 10, status_applied = None, target_defeated = False\<rparr>),
            constant_rng (1 / 2) 4)"
    by (simp add: Let_def nm st n add_entry_def owner_of_def hero_def default_stats_def)
  with h1 h2 h3 h5 h6 roll_minor_heal show ?thesis by blast
qed

theorem status_face_message_only_witness:
  "[goblin] \<noteq> [] \<and> (0::int) \<le> 0 \<and> (0::int) < int (length [goblin])
   \<and> roll_die (owner_of (one_face_die poison_blade)) DiceType.COMBAT 0 (constant_rng (1 / 2) 0) =
       Inr (((owner_of ((one_face_die poison_blade)\<lparr>xp := 10\<rparr>))\<lparr>active_faces := [''Poison Blade'']\<rparr>,
             Some (rolled poison_blade), ''Normal roll. ''), constant_rng (1 / 2) 0)
   \<and> rr_category (rolled poison_blade) = ''EFFECT''
   \<and> \<not> str_contains ''Heal'' (rr_name (rolled poison_blade))
   \<and> (str_contains ''Bleed'' (rr_name (rolled poison_blade))
        \<or> str_contains ''Poison'' (rr_name (rolled poison_blade))
        \<or> str_contains ''Stun'' (rr_name (rolled poison_blade)))
   \<and> player_turn \<lparr>entries = []\<rparr> (owner_of (one_face_die poison_blade)) [goblin] DiceType.COMBAT
        0 0 (constant_rng (1 / 2) 0) =
       Inr ((\<lparr>entries = [''Poison Blade applies Poisoned to Goblin for 3 turns'']\<rparr>,
             (owner_of ((one_face_die poison_blade)\<lparr>xp := 10\<rparr>))\<lparr>active_faces := [''Poison Blade'']\<rparr>,
             [goblin],
             \<lparr>success = True, message = ''Poison Blade applies Poisoned to Goblin for 3 turns'',
              damage_dealt = 0, healing_done = 0, status_applied = Some ''Poisoned'',
              target_defeated = False\<rparr>),
            constant_rng (1 / 2) 0)"
proof -
  have h1: "[goblin] \<noteq> []" by simp
  have h2: "(0::int) \<le> 0" by simp
  have h3: "(0::int) < int (length [goblin])" by simp
  have h5: "rr_category (rolled poison_blade) = ''EFFECT''"
    by (simp add: rolled_def poison_blade_def DiceFace_init_def)
  have nm: "rr_name (rolled poison_blade) = ''Poison Blade''"
    by (simp add: rolled_def poison_blade_def DiceFace_init_def)
  have h6: "\<not> str_contains ''Heal'' (rr_name (rolled poison_blade))" by (simp add: nm)
  have h7: "str_contains ''Bleed'' (rr_name (rolled poison_blade))
        \<or> str_contains ''Poison'' (rr_name (rolled poison_blade))
        \<or> str_contains ''Stun'' (rr_name (rolled poison_blade))" by (simp add: nm)
  from status_face_message_only [OF h1 h2 h3 roll_poison_blade h5 h6 h7, of "\<lparr>entries = []\<rparr>"]
  have "player_turn \<lparr>entries = []\<rparr> (owner_of (one_face_die poison_blade)) [goblin] DiceType.COMBAT
        0 0 (constant_rng (1 / 2) 0) =
       Inr ((\<lparr>entries = [''Poison Blade applies Poisoned to Goblin for 3 turns'']\<rparr>,
             (owner_of ((one_face_die poison_blade)\<lparr>xp := 10\<rparr>))\<lparr>active_faces := [''Poison Blade'']\<rparr>,
             [goblin],
             \<lparr>success = True, message = ''Poison Blade applies Poisoned to Goblin for 3 turns'',
              damage_dealt = 0, healing_done = 0, status_applied = Some ''Poisoned'',
              target_defeated = False\<rparr>),
            constant_rng (1 / 2) 0)"
    by (simp add: Let_def nm add_entry_def goblin_def)
  with h1 h2 h3 h5 h6 h7 roll_poison_blade show ?thesis by blast
qed

subsection \<open>The boss's ultimate ability\<close>








lemmas double_eval =
  double_of_fraction_def binary_exponent_def round_half_even_def bit_length.simps Let_def
  double_value_def double_add_def double_sub_def double_less_def int_truediv_def


text \<open>
  The sum of floats in \<open>TacticalBehavior\<close>: an enemy at 90 of 100 health against a player at
  60 of 100 is above \<open>0.6 + 0.3\<close>, so the aggressive decision is taken and nothing is drawn.
\<close>

lemma tactical_rounded_sum:
  "Tactical_decide_action (dragon\<lparr>enemy_health := 90\<rparr>)
     (hero\<lparr>stats := default_stats\<lparr>health := 60\<rparr>\<rparr>) dragon_dice (constant_rng 0 0) =
   Inr (Aggressive_decide_action (dragon\<lparr>enemy_health := 90\<rparr>)
          (hero\<lparr>stats := default_stats\<lparr>health := 60\<rparr>\<rparr>) dragon_dice (constant_rng 0 0))"
proof -
  have above: "double_less (double_add (int_truediv 60 100) (double_of_fraction 3 10))
                 (int_truediv 90 100)"
    by (simp add: double_eval)
  show ?thesis
    using above
    by (simp add: Tactical_decide_action_def dragon_def dragon_dice_def default_stats_def)
qed

text \<open>A trait face named after an attribute that is not a number raises.\<close>

lemma apply_trait_not_a_number: "apply_trait default_stats ''__doc__'' 1 = Inl TypeError"
  by (simp add: apply_trait_def apply_generic_trait_def non_numeric_attributes_def lower_def
      lower_char_def Let_def)


subsection \<open>One boss object for all bosses\<close>

lemma boss_turn_counted:
  assumes "enemy_dice \<noteq> []"
  shows "turn_count (fst (snd (Boss_decide_action b enemy player enemy_dice g))) = turn_count b + 1"
proof (cases "enemy_max_health enemy = 0")
  case True
  with assms show ?thesis by (simp add: Boss_decide_action_def Let_def)
next
  case False
  define hp where "hp = (of_int (enemy_health enemy) / of_int (enemy_max_health enemy) :: real)"
  define np :: int where "np = (if hp < 3 / 10 then 3 else if hp < 6 / 10 then 2 else 1)"
  define b1 where "b1 = b\<lparr>turn_count := turn_count b + 1\<rparr>"
  define b2 where "b2 = (if np \<noteq> phase b1
                         then b1\<lparr>phase := np, phase_abilities_used := {}\<rparr> else b1)"
  have tb2: "turn_count b2 = turn_count b + 1" by (simp add: b2_def b1_def)
  define ability where "ability =
                     (if phase b2 = 3 then
                        (case find_ultimate (phase_abilities_used b2) enemy_dice of
                           Some (ty, ix) \<Rightarrow>
                             Some ((ty, ix),
                                   b2\<lparr>phase_abilities_used :=
                                        insert (ultimate_key ty ix)
                                          (phase_abilities_used b2)\<rparr>)
                         | None \<Rightarrow> None)
                      else if phase b2 = 2 then
                        (if ''phase2_heal'' \<notin> phase_abilities_used b2 then
                           (case first_with_face (\<lambda>face. str_contains ''Heal'' (info_name face))
                                   enemy_dice of
                              Some selected \<Rightarrow>
                                Some (selected,
                                      b2\<lparr>phase_abilities_used :=
                                           insert ''phase2_heal'' (phase_abilities_used b2)\<rparr>)
                            | None \<Rightarrow> None)
                         else None)
                      else None)"
  have ab: "\<And>sel b3. ability = Some (sel, b3) \<Longrightarrow> turn_count b3 = turn_count b + 1"
    using tb2 by (auto simp add: ability_def split: if_splits option.splits)
  have unfold: "Boss_decide_action b enemy player enemy_dice g =
      (case ability of
         Some (selected, b3) \<Rightarrow> (Inr selected, b3, g)
       | None \<Rightarrow>
           (case (if turn_count b2 mod 3 = 0 then first_special enemy_dice else None) of
              Some selected \<Rightarrow> (Inr selected, b2, g)
            | None \<Rightarrow>
                (case Tactical_decide_action enemy player enemy_dice g of
                   Inl e \<Rightarrow> (Inl e, b2, g)
                 | Inr (selected, g') \<Rightarrow> (Inr selected, b2, g'))))"
    unfolding Boss_decide_action_def ability_def b2_def b1_def np_def hp_def Let_def
    by (simp only: assms False if_False)
  show ?thesis
  proof (cases ability)
    case (Some p)
    obtain sel b3 where p: "p = (sel, b3)" by (cases p) auto
    with Some unfold ab show ?thesis by simp
  next
    case None
    show ?thesis
    proof (cases "if turn_count b2 mod 3 = 0 then first_special enemy_dice else None")
      case (Some sel)
      with None unfold tb2 show ?thesis by simp
    next
      case N2: None
      show ?thesis
      proof (cases "Tactical_decide_action enemy player enemy_dice g")
        case (Inl e)
        with None N2 unfold tb2 show ?thesis by simp
      next
        case (Inr q)
        obtain sel g' where "q = (sel, g')" by (cases q) auto
        with Inr None N2 unfold tb2 show ?thesis by simp
      qed
    qed
  qed
qed

lemma get_behavior_boss:
  assumes "map_of (behaviors ai) ''boss'' = Some a" and "classified_as_boss ai e"
  shows "get_behavior ai e = Inr a"
  using assms
  by (auto simp add: get_behavior_def classified_as_boss_def lookup_behavior_def
      split: option.splits)

lemma EnemyAI_decide_action_boss:
  assumes "get_behavior ai e = Inr a" and "objects ai ! a = BossBehavior b"
  shows "EnemyAI_decide_action ai e player dice g =
           (fst (Boss_decide_action b e player dice g),
            ai\<lparr>objects := (objects ai)[a := BossBehavior
                                            (fst (snd (Boss_decide_action b e player dice g)))]\<rparr>,
            snd (snd (Boss_decide_action b e player dice g)))"
  using assms by (simp add: EnemyAI_decide_action_def split_beta)

lemma classified_as_boss_cong:
  assumes "custom_behaviors ai' = custom_behaviors ai"
    and "enemy_type_behaviors ai' = enemy_type_behaviors ai"
  shows "classified_as_boss ai' e = classified_as_boss ai e"
  using assms by (simp add: classified_as_boss_def split: option.splits)

lemma boss_empty_dice: "Boss_decide_action b enemy player [] g = (Inr (DiceType.COMBAT, 0), b, g)"
  by (simp add: Boss_decide_action_def)

text \<open>
  C10, as the code has it. The registry \<open>EnemyAI()\<close> builds holds one \<open>BossBehavior\<close>
  object, under the key \<open>boss\<close>. In any registry whose key \<open>boss\<close> refers to a
  \<open>BossBehavior\<close> object, \<open>get_behavior\<close> gives that same reference for every enemy
  classified as a boss (by an override for its name, by the pattern of its name, or by its
  type), so the turn counter, phase and used keys are one state for all of them. A call of
  \<open>decide_action\<close> for one boss with a non-empty list of dice raises the counter by one and
  leaves the object as \<open>BossBehavior.decide_action\<close> left it; starting a new combat changes
  nothing in the registry, and the call for another boss in that combat finds the object
  there and raises the counter again. With an empty list of dice the call returns
  \<open>(COMBAT, 0)\<close> and changes nothing. Setting an override or a type default leaves the
  objects as they are.
\<close>

theorem boss_state_shared_across_combats:
  assumes "map_of (behaviors (enemy_ai w)) ''boss'' = Some a"
    and "a < length (objects (enemy_ai w))"
    and "objects (enemy_ai w) ! a = BossBehavior b"
    and "classified_as_boss (enemy_ai w) e1" and "classified_as_boss (enemy_ai w) e2"
    and "dice1 \<noteq> []" and "dice2 \<noteq> []"
  shows "filter is_boss_object (objects EnemyAI_init) = [BossBehavior BossState_init]
         \<and> map_of (behaviors EnemyAI_init) ''boss'' = Some 4
         \<and> objects EnemyAI_init ! 4 = BossBehavior BossState_init
         \<and> get_behavior (enemy_ai w) e1 = Inr a \<and> get_behavior (enemy_ai w) e2 = Inr a
         \<and> (let w1 = fst (snd (enemy_decides w e1 player1 dice1 g1));
                 w2 = begin_combat w1 player2 enemies2;
                 w3 = fst (snd (enemy_decides w2 e2 player2 dice2 g2))
             in objects (enemy_ai w1) ! a
                  = BossBehavior (fst (snd (Boss_decide_action b e1 player1 dice1 g1)))
                \<and> turn_count (fst (snd (Boss_decide_action b e1 player1 dice1 g1)))
                    = turn_count b + 1
                \<and> enemy_ai w2 = enemy_ai w1
                \<and> get_behavior (enemy_ai w2) e2 = Inr a
                \<and> (\<exists>b2. objects (enemy_ai w3) ! a = BossBehavior b2
                          \<and> turn_count b2 = turn_count b + 2))
         \<and> enemy_decides w e1 player1 [] g1 = (Inr (DiceType.COMBAT, 0), w, g1)
         \<and> objects (fst (set_custom_behavior (enemy_ai w) nm key)) = objects (enemy_ai w)
         \<and> objects (fst (set_enemy_type_behavior (enemy_ai w) ty key)) = objects (enemy_ai w)"
proof -
  let ?ai = "enemy_ai w"
  let ?b1 = "fst (snd (Boss_decide_action b e1 player1 dice1 g1))"
  let ?ai1 = "?ai\<lparr>objects := (objects ?ai)[a := BossBehavior ?b1]\<rparr>"
  let ?w1 = "w\<lparr>enemy_ai := ?ai1\<rparr>"
  let ?w2 = "begin_combat ?w1 player2 enemies2"
  have init: "filter is_boss_object (objects EnemyAI_init) = [BossBehavior BossState_init]
         \<and> map_of (behaviors EnemyAI_init) ''boss'' = Some 4
         \<and> objects EnemyAI_init ! 4 = BossBehavior BossState_init"
    by (simp add: EnemyAI_init_def)
  have g1: "get_behavior ?ai e1 = Inr a" using get_behavior_boss [OF assms(1) assms(4)] .
  have g2: "get_behavior ?ai e2 = Inr a" using get_behavior_boss [OF assms(1) assms(5)] .
  have s1: "fst (snd (enemy_decides w e1 player1 dice1 g1)) = ?w1"
    using EnemyAI_decide_action_boss [OF g1 assms(3), of player1 dice1 g1]
    by (simp add: enemy_decides_def)
  have o1: "objects ?ai1 ! a = BossBehavior ?b1" using assms(2) by simp
  have t1: "turn_count ?b1 = turn_count b + 1" using boss_turn_counted [OF assms(6)] .
  have a2: "enemy_ai ?w2 = ?ai1" by (simp add: begin_combat_def)
  have m1: "map_of (behaviors ?ai1) ''boss'' = Some a" using assms(1) by simp
  have c1: "classified_as_boss ?ai1 e2"
    using classified_as_boss_cong [of ?ai1 ?ai e2] assms(5) by simp
  have g3: "get_behavior ?ai1 e2 = Inr a" using get_behavior_boss [OF m1 c1] .
  let ?b2 = "fst (snd (Boss_decide_action ?b1 e2 player2 dice2 g2))"
  have s2: "enemy_ai (fst (snd (enemy_decides ?w2 e2 player2 dice2 g2)))
              = ?ai1\<lparr>objects := (objects ?ai1)[a := BossBehavior ?b2]\<rparr>"
    using EnemyAI_decide_action_boss [OF g3 o1, of player2 dice2 g2]
    by (simp add: enemy_decides_def a2)
  have o2: "objects (?ai1\<lparr>objects := (objects ?ai1)[a := BossBehavior ?b2]\<rparr>) ! a = BossBehavior ?b2"
    using assms(2) by simp
  have t2: "turn_count ?b2 = turn_count b + 2"
    using boss_turn_counted [OF assms(7), of ?b1 e2 player2 g2] t1 by simp
  have later: "\<exists>b2. objects (enemy_ai (fst (snd (enemy_decides ?w2 e2 player2 dice2 g2)))) ! a
                       = BossBehavior b2 \<and> turn_count b2 = turn_count b + 2"
    using s2 o2 t2 by simp
  have upd: "(objects ?ai)[a := BossBehavior b] = objects ?ai"
    using list_update_id [of "objects ?ai" a] assms(3) by simp
  have same: "?ai\<lparr>objects := objects ?ai\<rparr> = ?ai" by simp
  have "EnemyAI_decide_action ?ai e1 player1 [] g1 = (Inr (DiceType.COMBAT, 0), ?ai, g1)"
    using EnemyAI_decide_action_boss [OF g1 assms(3), of player1 "[]" g1]
    by (simp only: boss_empty_dice fst_conv snd_conv upd same)
  then have empty: "enemy_decides w e1 player1 [] g1 = (Inr (DiceType.COMBAT, 0), w, g1)"
    by (simp add: enemy_decides_def)
  have frame: "objects (fst (set_custom_behavior ?ai nm key)) = objects ?ai
         \<and> objects (fst (set_enemy_type_behavior ?ai ty key)) = objects ?ai"
    by (simp add: set_custom_behavior_def set_enemy_type_behavior_def)
  have i1: "filter is_boss_object (objects EnemyAI_init) = [BossBehavior BossState_init]"
    and i2: "map_of (behaviors EnemyAI_init) ''boss'' = Some 4"
    and i3: "objects EnemyAI_init ! 4 = BossBehavior BossState_init"
    using init by simp_all
  have fr1: "objects (fst (set_custom_behavior ?ai nm key)) = objects ?ai"
    and fr2: "objects (fst (set_enemy_type_behavior ?ai ty key)) = objects ?ai"
    using frame by simp_all
  have so1: "objects (enemy_ai ?w1) ! a = BossBehavior ?b1" using o1 by simp
  have sa2: "enemy_ai ?w2 = enemy_ai ?w1" using a2 by simp
  have sg3: "get_behavior (enemy_ai ?w2) e2 = Inr a" using g3 a2 by simp
  show ?thesis
    unfolding Let_def s1
    by (intro conjI i1 i2 i3 g1 g2 so1 t1 sa2 sg3 later empty fr1 fr2)
qed

theorem boss_state_shared_across_combats_witness:
  "map_of (behaviors (enemy_ai new_game)) ''boss'' = Some 4
   \<and> 4 < length (objects (enemy_ai new_game))
   \<and> objects (enemy_ai new_game) ! 4 = BossBehavior BossState_init
   \<and> classified_as_boss (enemy_ai new_game) goblin_king
   \<and> classified_as_boss (enemy_ai new_game) wyrm
   \<and> dragon_dice \<noteq> []
   \<and> get_behavior (enemy_ai new_game) goblin_king = Inr 4
   \<and> get_behavior (enemy_ai new_game) wyrm = Inr 4
   \<and> (\<exists>b2. objects
              (enemy_ai
                (fst (snd (enemy_decides
                             (begin_combat
                                (fst (snd (enemy_decides new_game goblin_king hero dragon_dice
                                             (constant_rng 0 0))))
                                hero [wyrm])
                             wyrm hero dragon_dice (constant_rng 0 0))))) ! 4 = BossBehavior b2
            \<and> turn_count b2 = 2)
   \<and> enemy_decides new_game goblin_king hero [] (constant_rng 0 0)
       = (Inr (DiceType.COMBAT, 0), new_game, constant_rng 0 0)"
proof -
  have ai: "enemy_ai new_game = EnemyAI_init" by (simp add: new_game_def)
  have h1: "map_of (behaviors (enemy_ai new_game)) ''boss'' = Some 4"
    by (simp add: ai EnemyAI_init_def)
  have h2: "4 < length (objects (enemy_ai new_game))" by (simp add: ai EnemyAI_init_def)
  have h3: "objects (enemy_ai new_game) ! 4 = BossBehavior BossState_init"
    by (simp add: ai EnemyAI_init_def)
  have h4: "classified_as_boss (enemy_ai new_game) goblin_king"
    by (simp add: ai classified_as_boss_def EnemyAI_init_def goblin_king_def goblin_def
        boss_name_def)
  have h5: "classified_as_boss (enemy_ai new_game) wyrm"
    by (simp add: ai classified_as_boss_def EnemyAI_init_def wyrm_def dragon_def boss_name_def)
  have h6: "dragon_dice \<noteq> []" by (simp add: dragon_dice_def)
  have tc: "turn_count BossState_init + 2 = 2" by (simp add: BossState_init_def)
  note t = boss_state_shared_across_combats
             [OF h1 h2 h3 h4 h5 h6 h6, of hero "constant_rng 0 0" hero "[wyrm]" "constant_rng 0 0"]
  from t have c1: "get_behavior (enemy_ai new_game) goblin_king = Inr 4"
    and c2: "get_behavior (enemy_ai new_game) wyrm = Inr 4"
    and c4: "enemy_decides new_game goblin_king hero [] (constant_rng 0 0)
       = (Inr (DiceType.COMBAT, 0), new_game, constant_rng 0 0)"
    by blast+
  from t have c3: "\<exists>b2. objects
              (enemy_ai
                (fst (snd (enemy_decides
                             (begin_combat
                                (fst (snd (enemy_decides new_game goblin_king hero dragon_dice
                                             (constant_rng 0 0))))
                                hero [wyrm])
                             wyrm hero dragon_dice (constant_rng 0 0))))) ! 4 = BossBehavior b2
            \<and> turn_count b2 = 2"
    unfolding Let_def tc by blast
  show ?thesis by (intro conjI h1 h2 h3 h4 h5 h6 c1 c2 c3 c4)
qed

text \<open>
  C10 as stated fails for an empty list of dice: the call for a boss returns before the
  counter is raised, and the counter stays 0.
\<close>

theorem empty_dice_counterexample:
  "classified_as_boss EnemyAI_init goblin_king
   \<and> EnemyAI_decide_action EnemyAI_init goblin_king hero [] (constant_rng 0 0)
       = (Inr (DiceType.COMBAT, 0), EnemyAI_init, constant_rng 0 0)
   \<and> objects EnemyAI_init ! 4 = BossBehavior BossState_init
   \<and> turn_count BossState_init = 0"
  by (simp add: classified_as_boss_def EnemyAI_decide_action_def get_behavior_def
      lookup_behavior_def boss_name_def Boss_decide_action_def EnemyAI_init_def
      goblin_king_def goblin_def BossState_init_def)

end
